theory Spec2Isabelle
  imports Complex_Main "HOL-Library.Sublist"
begin

unbundle bit_operations_syntax

section \<open>Python values used by the stealth tester\<close>

text \<open>
  Python strings are modelled as \<^typ>\<open>string\<close>; characters outside ASCII are carried as
  their UTF-8 bytes. Python floats are modelled as exact reals: rounding of the binary
  representation is not part of the model. Python's unbounded integers are \<^typ>\<open>int\<close>
  (or \<^typ>\<open>nat\<close> for counts and sizes, which are never negative).
\<close>

definition lower_char :: "char \<Rightarrow> char" where
  "lower_char c =
     (case map_of (zip ''ABCDEFGHIJKLMNOPQRSTUVWXYZ'' ''abcdefghijklmnopqrstuvwxyz'') c of
        Some l \<Rightarrow> l
      | None \<Rightarrow> c)"

definition lower :: "string \<Rightarrow> string" where
  \<comment> \<open>\<open>str.lower()\<close> on the ASCII letters\<close>
  "lower s = map lower_char s"

fun str_in :: "string \<Rightarrow> string \<Rightarrow> bool" where
  \<comment> \<open>\<open>sub in s\<close> for strings: \<open>sub\<close> occurs in \<open>s\<close> as a contiguous run\<close>
  "str_in sub [] = (sub = [])"
| "str_in sub (c # s) = (prefix sub (c # s) \<or> str_in sub s)"

function str_count_from :: "string \<Rightarrow> string \<Rightarrow> nat" where
  \<comment> \<open>non-overlapping occurrences of a non-empty \<open>sub\<close>, scanning from the left\<close>
  "str_count_from sub s =
     (if sub = [] \<or> s = [] then 0
      else if prefix sub s then Suc (str_count_from sub (drop (length sub) s))
      else str_count_from sub (tl s))"
  by pat_completeness auto
termination
  by (relation "measure (\<lambda>(sub, s). length s)") (auto simp: neq_Nil_conv)

declare str_count_from.simps [simp del]

definition str_count :: "string \<Rightarrow> string \<Rightarrow> nat" where
  \<comment> \<open>\<open>s.count(sub)\<close>; the empty string is counted between all characters\<close>
  "str_count s sub = (if sub = [] then Suc (length s) else str_count_from sub s)"

definition is_space :: "char \<Rightarrow> bool" where
  \<comment> \<open>the ASCII whitespace that \<open>str.strip()\<close> removes\<close>
  "is_space c =
     (c \<in> set [CHR 0x09, CHR 0x0A, CHR 0x0B, CHR 0x0C, CHR 0x0D,
                CHR 0x1C, CHR 0x1D, CHR 0x1E, CHR 0x1F, CHR 0x20])"

definition strip :: "string \<Rightarrow> string" where
  "strip s = rev (dropWhile is_space (rev (dropWhile is_space s)))"

fun split_on :: "char \<Rightarrow> string \<Rightarrow> string list" where
  \<comment> \<open>\<open>s.split(c)\<close> for a one-character separator: always at least one piece\<close>
  "split_on sep [] = [[]]"
| "split_on sep (c # s) =
     (if c = sep then [] # split_on sep s
      else (case split_on sep s of [] \<Rightarrow> [[c]] | w # ws \<Rightarrow> (c # w) # ws))"

definition digit_char :: "nat \<Rightarrow> char" where
  "digit_char d = ''0123456789'' ! d"

fun str_nat :: "nat \<Rightarrow> string" where
  "str_nat n = (if n < 10 then [digit_char n] else str_nat (n div 10) @ [digit_char (n mod 10)])"

declare str_nat.simps [simp del]

definition str_int :: "int \<Rightarrow> string" where
  \<comment> \<open>\<open>str(i)\<close> for a Python int\<close>
  "str_int i = (if i < 0 then CHR ''-'' # str_nat (nat (- i)) else str_nat (nat i))"

definition round_half_even :: "real \<Rightarrow> int" where
  "round_half_even y =
     (let f = \<lfloor>y\<rfloor>; d = y - of_int f
      in if d < 1 / 2 then f else if 1 / 2 < d then f + 1 else if even f then f else f + 1)"

definition fmt_1f :: "real \<Rightarrow> string" where
  \<comment> \<open>the format \<open>{x:.1f}\<close>: one digit after the point, ties to even\<close>
  "fmt_1f x =
     (let n = nat (round_half_even (\<bar>x\<bar> * 10))
      in (if x < 0 then ''-'' else '''') @ str_nat (n div 10) @ ''.'' @ str_nat (n mod 10))"

definition repr_char :: "char \<Rightarrow> char \<Rightarrow> string" where
  \<comment> \<open>one character inside \<open>repr\<close> of a string quoted with \<open>q\<close>\<close>
  "repr_char q c =
     (if c = q \<or> c = CHR 0x5C then [CHR 0x5C, c]
      else if c = CHR 0x0A then [CHR 0x5C, CHR ''n'']
      else if c = CHR 0x0D then [CHR 0x5C, CHR ''r'']
      else if c = CHR 0x09 then [CHR 0x5C, CHR ''t'']
      else [c])"

definition repr_str :: "string \<Rightarrow> string" where
  \<comment> \<open>\<open>repr(s)\<close>: single quotes, unless the string has a single quote and no double quote\<close>
  "repr_str s =
     (let q = (if CHR 0x27 \<in> set s \<and> CHR 0x22 \<notin> set s then CHR 0x22 else CHR 0x27)
      in [q] @ concat (map (repr_char q) s) @ [q])"

fun join :: "string \<Rightarrow> string list \<Rightarrow> string" where
  "join sep [] = []"
| "join sep [x] = x"
| "join sep (x # y # ys) = x @ sep @ join sep (y # ys)"

definition repr_list :: "string list \<Rightarrow> string" where
  \<comment> \<open>\<open>repr\<close> of a list of strings, as an f-string prints it\<close>
  "repr_list xs = ''['' @ join '', '' (map repr_str xs) @ '']''"

section \<open>The platform the probes call\<close>

text \<open>
  Every call into psutil, pywin32, subprocess, mss or os either returns a value or raises.
  A raise is the left summand. The probes tell psutil's \<open>NoSuchProcess\<close> and
  \<open>AccessDenied\<close> from every other exception; each carries the text that \<open>str(e)\<close> gives.

  The two enumerations, \<open>psutil.process_iter\<close> and \<open>win32gui.EnumWindows\<close>, may raise
  while they run. What their loop bodies did until then is an append to a local list, which
  the raise discards, so an enumeration is either its exception or the whole list. The
  screen capture session \<open>mss.mss()\<close> is opened (\<open>mss_open\<close>) and, when the \<open>with\<close> block
  is left, closed (\<open>mss_close\<close>); \<open>screenshot_to_png\<close> is what happens in between:
  \<open>sct.monitors[1]\<close>, \<open>sct.grab\<close> and \<open>mss.tools.to_png\<close>. \<open>write_file\<close> is opening the
  report file and dumping the document into it.
\<close>

datatype exn = NoSuchProcess string | AccessDenied string | OtherException string

fun exn_text :: "exn \<Rightarrow> string" where
  "exn_text (NoSuchProcess m) = m"
| "exn_text (AccessDenied m) = m"
| "exn_text (OtherException m) = m"

fun psutil_gone :: "exn \<Rightarrow> bool" where
  \<comment> \<open>the handler \<open>except (psutil.NoSuchProcess, psutil.AccessDenied)\<close> takes it\<close>
  "psutil_gone (NoSuchProcess m) = True"
| "psutil_gone (AccessDenied m) = True"
| "psutil_gone (OtherException m) = False"

type_synonym proc = nat
type_synonym hwnd = int

record conn =
  raddr :: "(string \<times> nat) option"

record platform =
  now_isoformat :: string
  now_strftime :: "string \<Rightarrow> string"
  platform_system :: string
  platform_release :: string
  process_iter :: "exn + proc list"
  info_name :: "proc \<Rightarrow> exn + string"
  proc_pid :: "proc \<Rightarrow> int"
  proc_name :: "proc \<Rightarrow> exn + string"
  proc_parent :: "proc \<Rightarrow> exn + proc option"
  proc_connections :: "proc \<Rightarrow> exn + conn list"
  proc_memory_rss :: "proc \<Rightarrow> exn + nat"
  proc_cpu_percent :: "nat \<Rightarrow> proc \<Rightarrow> exn + real"
  subprocess_run :: "string list \<Rightarrow> exn + (int \<times> string)"
  EnumWindows :: "exn + hwnd list"
  IsWindowVisible :: "hwnd \<Rightarrow> exn + int"
  GetWindowText :: "hwnd \<Rightarrow> exn + string"
  GetWindowLong :: "hwnd \<Rightarrow> int \<Rightarrow> exn + int"
  OpenProcess :: "int \<Rightarrow> bool \<Rightarrow> int \<Rightarrow> exn + int"
  CloseHandle :: "int \<Rightarrow> exn + unit"
  DebugActiveProcess :: "int \<Rightarrow> exn + unit"
  DebugActiveProcessStop :: "int \<Rightarrow> exn + unit"
  mss_open :: "exn + unit"
  screenshot_to_png :: "string \<Rightarrow> exn + unit"
  path_exists :: "string \<Rightarrow> bool"
  path_getsize :: "string \<Rightarrow> exn + nat"
  mss_close :: "exn + unit"
  write_file :: "string \<Rightarrow> exn + unit"

text \<open>The constants of \<open>win32con\<close> that the probes use.\<close>

definition GWL_EXSTYLE :: int where "GWL_EXSTYLE = - 20"
definition GWL_STYLE :: int where "GWL_STYLE = - 16"
definition WS_EX_TOOLWINDOW :: int where "WS_EX_TOOLWINDOW = 0x80"
definition WS_VISIBLE :: int where "WS_VISIBLE = 0x10000000"
definition PROCESS_VM_OPERATION :: int where "PROCESS_VM_OPERATION = 0x8"
definition PROCESS_VM_WRITE :: int where "PROCESS_VM_WRITE = 0x20"
definition PROCESS_ALL_ACCESS :: int where "PROCESS_ALL_ACCESS = 0x1F0FFF"

section \<open>Test results and the tester\<close>

record TestResult =
  test :: string
  passed :: bool
  details :: string
  severity :: string
  timestamp :: string

record StealthTester =
  process_name :: string
  window_title :: string
  results :: "TestResult list"
  target_processes :: "proc list"
  target_windows :: "(hwnd \<times> string) list"

definition init :: "string \<Rightarrow> string \<Rightarrow> StealthTester" where
  \<comment> \<open>\<open>StealthTester.__init__\<close>\<close>
  "init pname wtitle =
     \<lparr>process_name = lower pname, window_title = lower wtitle, results = [],
      target_processes = [], target_windows = []\<rparr>"

definition add_result ::
  "platform \<Rightarrow> StealthTester \<Rightarrow> string \<Rightarrow> bool \<Rightarrow> string \<Rightarrow> string \<Rightarrow> StealthTester" where
  "add_result env st t p d sev =
     st\<lparr>results := results st @
        [\<lparr>test = t, passed = p, details = d, severity = sev, timestamp = now_isoformat env\<rparr>]\<rparr>"

text \<open>
  A \<open>for\<close> loop whose body may raise: the loop variables are threaded through, and an
  exception that the body does not catch ends the loop.
\<close>

fun for_each :: "('a \<Rightarrow> 's \<Rightarrow> exn + 's) \<Rightarrow> 'a list \<Rightarrow> 's \<Rightarrow> exn + 's" where
  "for_each body [] s = Inr s"
| "for_each body (x # xs) s =
     (case body x s of Inl e \<Rightarrow> Inl e | Inr s' \<Rightarrow> for_each body xs s')"

definition or_continue :: "exn + 's \<Rightarrow> 's \<Rightarrow> exn + 's" where
  \<comment> \<open>\<open>except (psutil.NoSuchProcess, psutil.AccessDenied): continue\<close>, the loop
      variables being \<open>s\<close> when the exception is raised\<close>
  "or_continue r s = (case r of Inl e \<Rightarrow> if psutil_gone e then Inr s else Inl e | Inr v \<Rightarrow> Inr v)"

section \<open>Target resolver\<close>

definition find_target_processes :: "platform \<Rightarrow> StealthTester \<Rightarrow> exn + proc list" where
  \<comment> \<open>the iteration itself is outside the \<open>try\<close>: what it raises leaves the function\<close>
  "find_target_processes env st =
     (case process_iter env of
        Inl e \<Rightarrow> Inl e
      | Inr procs \<Rightarrow>
          for_each
            (\<lambda>p processes.
               case info_name env p of
                 Inl e \<Rightarrow> or_continue (Inl e) processes
               | Inr n \<Rightarrow>
                   Inr (if str_in (process_name st) (lower n) then processes @ [p]
                        else processes))
            procs [])"

definition enum_window_callback ::
  "platform \<Rightarrow> StealthTester \<Rightarrow> hwnd \<Rightarrow> (hwnd \<times> string) list \<Rightarrow> (hwnd \<times> string) list" where
  \<comment> \<open>the callback appends to \<open>windows\<close>; any exception inside it is dropped\<close>
  "enum_window_callback env st h windows =
     (case IsWindowVisible env h of
        Inl e \<Rightarrow> windows
      | Inr visible \<Rightarrow>
          if visible \<noteq> 0 then
            (case GetWindowText env h of
               Inl e \<Rightarrow> windows
             | Inr title \<Rightarrow>
                 if title \<noteq> [] \<and>
                    (window_title st = [] \<or> str_in (window_title st) (lower title))
                 then windows @ [(h, title)]
                 else windows)
          else windows)"

definition find_target_windows ::
  "platform \<Rightarrow> StealthTester \<Rightarrow> exn + (hwnd \<times> string) list" where
  \<comment> \<open>\<open>win32gui.EnumWindows\<close> is called outside any \<open>try\<close>\<close>
  "find_target_windows env st =
     (case EnumWindows env of
        Inl e \<Rightarrow> Inl e
      | Inr hwnds \<Rightarrow>
          Inr (foldl (\<lambda>windows h. enum_window_callback env st h windows) [] hwnds))"

section \<open>Probes: basic detection\<close>

fun traverse :: "('a \<Rightarrow> exn + 'b) \<Rightarrow> 'a list \<Rightarrow> exn + 'b list" where
  \<comment> \<open>a list comprehension whose element expression may raise\<close>
  "traverse f [] = Inr []"
| "traverse f (x # xs) =
     (case f x of
        Inl e \<Rightarrow> Inl e
      | Inr y \<Rightarrow> (case traverse f xs of Inl e \<Rightarrow> Inl e | Inr ys \<Rightarrow> Inr (y # ys)))"

definition test_psutil_detection :: "platform \<Rightarrow> StealthTester \<Rightarrow> exn + StealthTester" where
  "test_psutil_detection env st =
     (case find_target_processes env st of
        Inl e \<Rightarrow> Inl e
      | Inr processes \<Rightarrow>
          if processes \<noteq> [] then
            (case traverse (info_name env) processes of
               Inl e \<Rightarrow> Inl e
             | Inr names \<Rightarrow>
                 Inr ((add_result env st ''PSUtil Process Detection'' False
                        (''Found '' @ str_nat (length processes) @ '' processes: '' @
                         repr_list names) ''high'')
                      \<lparr>target_processes := processes\<rparr>))
          else
            Inr (add_result env st ''PSUtil Process Detection'' True
                  ''No processes detected by psutil'' ''low''))"

definition test_tasklist_detection :: "platform \<Rightarrow> StealthTester \<Rightarrow> exn + StealthTester" where
  "test_tasklist_detection env st =
     (case subprocess_run env [''tasklist'', ''/fo'', ''csv''] of
        Inl e \<Rightarrow>
          Inr (add_result env st ''TaskList Detection'' True
                (''TaskList test failed: '' @ exn_text e) ''medium'')
      | Inr (returncode, stdout) \<Rightarrow>
          if returncode = 0 then
            (let output = lower stdout;
                 detected = str_in (process_name st) output
             in if detected then
                  (let count = str_count output (process_name st)
                   in Inr (add_result env st ''TaskList Detection'' False
                            (''Process detected '' @ str_nat count @ '' times in tasklist'')
                            ''high''))
                else
                  Inr (add_result env st ''TaskList Detection'' True
                        ''Process hidden from tasklist'' ''low''))
          else
            Inr (add_result env st ''TaskList Detection'' True
                  ''TaskList command failed (access restricted?)'' ''medium''))"

definition test_wmic_detection :: "platform \<Rightarrow> StealthTester \<Rightarrow> exn + StealthTester" where
  "test_wmic_detection env st =
     (case subprocess_run env
             [''wmic'', ''process'', ''get'', ''name,processid,executablepath'', ''/format:csv''] of
        Inl e \<Rightarrow>
          Inr (add_result env st ''WMIC Detection'' True
                (''WMIC test failed: '' @ exn_text e) ''medium'')
      | Inr (returncode, stdout) \<Rightarrow>
          if returncode = 0 then
            (let output = lower stdout;
                 detected = str_in (process_name st) output
             in if detected then
                  Inr (add_result env st ''WMIC Detection'' False
                        ''Process detected by WMIC queries'' ''critical'')
                else
                  Inr (add_result env st ''WMIC Detection'' True
                        ''Process hidden from WMIC'' ''low''))
          else
            Inr (add_result env st ''WMIC Detection'' True
                  ''WMIC access blocked or failed'' ''medium''))"

definition ps_command :: "string \<Rightarrow> string" where
  "ps_command pname =
     ''Get-Process | Where-Object {$_.ProcessName -like '' @ [CHR 0x22] @ ''*'' @ pname @ ''*'' @
     [CHR 0x22] @ ''} | Select-Object ProcessName,Id,MainWindowTitle''"

definition test_powershell_detection :: "platform \<Rightarrow> StealthTester \<Rightarrow> exn + StealthTester" where
  "test_powershell_detection env st =
     (case subprocess_run env [''powershell'', ''-Command'', ps_command (process_name st)] of
        Inl e \<Rightarrow>
          Inr (add_result env st ''PowerShell Detection'' True
                (''PowerShell test failed: '' @ exn_text e) ''medium'')
      | Inr (returncode, stdout) \<Rightarrow>
          if returncode = 0 then
            (let output = strip stdout;
                 lines = filter (\<lambda>line. strip line \<noteq> []) (split_on (CHR 0x0A) output);
                 detected = (length lines > 2 \<and> str_in (process_name st) (lower output))
             in if detected then
                  Inr (add_result env st ''PowerShell Detection'' False
                        (''Process detected by Get-Process: '' @ str_nat (length lines - 2) @
                         '' instances'') ''high'')
                else
                  Inr (add_result env st ''PowerShell Detection'' True
                        ''Process hidden from PowerShell Get-Process'' ''low''))
          else
            Inr (add_result env st ''PowerShell Detection'' True
                  ''PowerShell execution blocked'' ''medium''))"

section \<open>Probes: window detection\<close>

definition window_detail :: "hwnd \<times> string \<Rightarrow> string" where
  "window_detail w = ''HWND:'' @ str_int (fst w) @ '' '' @ [CHR 0x27] @ snd w @ [CHR 0x27]"

definition test_window_enumeration :: "platform \<Rightarrow> StealthTester \<Rightarrow> exn + StealthTester" where
  "test_window_enumeration env st =
     (case find_target_windows env st of
        Inl e \<Rightarrow> Inl e
      | Inr windows \<Rightarrow>
          if windows \<noteq> [] then
            (let window_details = map window_detail (take 3 windows)
             in Inr ((add_result env st ''Win32 Window Enumeration'' False
                       (''Found '' @ str_nat (length windows) @ '' windows: '' @
                        repr_list window_details) ''critical'')
                     \<lparr>target_windows := windows\<rparr>))
          else
            Inr (add_result env st ''Win32 Window Enumeration'' True
                  ''No windows detected by EnumWindows'' ''low''))"

definition taskbar_step :: "platform \<Rightarrow> hwnd \<times> string \<Rightarrow> nat \<Rightarrow> nat" where
  \<comment> \<open>one window of the taskbar loop; \<open>except Exception: continue\<close> keeps the count\<close>
  "taskbar_step env w taskbar_windows =
     (case GetWindowLong env (fst w) GWL_EXSTYLE of
        Inl e \<Rightarrow> taskbar_windows
      | Inr ex_style \<Rightarrow>
          (case GetWindowLong env (fst w) GWL_STYLE of
             Inl e \<Rightarrow> taskbar_windows
           | Inr style \<Rightarrow>
               if \<not> (ex_style AND WS_EX_TOOLWINDOW \<noteq> 0) \<and> (style AND WS_VISIBLE \<noteq> 0)
               then taskbar_windows + 1
               else taskbar_windows))"

definition test_taskbar_presence :: "platform \<Rightarrow> StealthTester \<Rightarrow> exn + StealthTester" where
  "test_taskbar_presence env st =
     (if target_windows st = [] then
        Inr (add_result env st ''Taskbar Presence'' True
              ''No windows to test taskbar presence'' ''low'')
      else
        (let taskbar_windows =
               foldl (\<lambda>n w. taskbar_step env w n) 0 (target_windows st)
         in if taskbar_windows > 0 then
              Inr (add_result env st ''Taskbar Presence'' False
                    (str_nat taskbar_windows @ '' windows likely visible in taskbar'') ''medium'')
            else
              Inr (add_result env st ''Taskbar Presence'' True
                    ''Windows hidden from taskbar'' ''low'')))"

definition alt_tab_step :: "platform \<Rightarrow> hwnd \<times> string \<Rightarrow> nat \<Rightarrow> nat" where
  "alt_tab_step env w alt_tab_visible =
     (case IsWindowVisible env (fst w) of
        Inl e \<Rightarrow> alt_tab_visible
      | Inr visible \<Rightarrow>
          if visible \<noteq> 0 then
            (case GetWindowLong env (fst w) GWL_EXSTYLE of
               Inl e \<Rightarrow> alt_tab_visible
             | Inr ex_style \<Rightarrow>
                 if \<not> (ex_style AND WS_EX_TOOLWINDOW \<noteq> 0) then
                   (if strip (snd w) \<noteq> [] then alt_tab_visible + 1 else alt_tab_visible)
                 else alt_tab_visible)
          else alt_tab_visible)"

definition test_alt_tab_visibility :: "platform \<Rightarrow> StealthTester \<Rightarrow> exn + StealthTester" where
  "test_alt_tab_visibility env st =
     (if target_windows st = [] then
        Inr (add_result env st ''Alt+Tab Visibility'' True
              ''No windows to test Alt+Tab visibility'' ''low'')
      else
        (let alt_tab_visible =
               foldl (\<lambda>n w. alt_tab_step env w n) 0 (target_windows st)
         in if alt_tab_visible > 0 then
              Inr (add_result env st ''Alt+Tab Visibility'' False
                    (str_nat alt_tab_visible @ '' windows likely visible in Alt+Tab'') ''medium'')
            else
              Inr (add_result env st ''Alt+Tab Visibility'' True
                    ''Windows hidden from Alt+Tab'' ''low'')))"

section \<open>Probes: behaviour analysis\<close>

definition legitimate_parents :: "string list" where
  "legitimate_parents = [''explorer.exe'', ''services.exe'', ''winlogon.exe'', ''dwm.exe'']"

definition arrow :: string where
  \<comment> \<open>the rightwards arrow U+2192 in UTF-8\<close>
  "arrow = [CHR 0xE2, CHR 0x86, CHR 0x92]"

definition process_tree_step :: "platform \<Rightarrow> proc \<Rightarrow> string list \<Rightarrow> exn + string list" where
  "process_tree_step env p suspicious_parents =
     or_continue
       (case proc_parent env p of
          Inl e \<Rightarrow> Inl e
        | Inr None \<Rightarrow> Inr suspicious_parents
        | Inr (Some parent) \<Rightarrow>
            (case proc_name env parent of
               Inl e \<Rightarrow> Inl e
             | Inr pn \<Rightarrow>
                 (let parent_name = lower pn
                  in if parent_name \<notin> set legitimate_parents then
                       (case proc_name env p of
                          Inl e \<Rightarrow> Inl e
                        | Inr n \<Rightarrow> Inr (suspicious_parents @ [n @ arrow @ parent_name]))
                     else Inr suspicious_parents)))
       suspicious_parents"

definition test_process_tree :: "platform \<Rightarrow> StealthTester \<Rightarrow> exn + StealthTester" where
  "test_process_tree env st =
     (if target_processes st = [] then
        Inr (add_result env st ''Process Tree Analysis'' True ''No processes to analyze'' ''low'')
      else
        (case for_each (process_tree_step env) (target_processes st) [] of
           Inl e \<Rightarrow> Inl e
         | Inr suspicious_parents \<Rightarrow>
             if suspicious_parents \<noteq> [] then
               Inr (add_result env st ''Process Tree Analysis'' False
                     (''Suspicious parent processes: '' @ repr_list suspicious_parents) ''medium'')
             else
               Inr (add_result env st ''Process Tree Analysis'' True
                     ''Process tree appears legitimate'' ''low'')))"

definition external_conn :: "conn \<Rightarrow> string list" where
  \<comment> \<open>the entry the inner loop appends for one connection, if any\<close>
  "external_conn c =
     (case raddr c of
        None \<Rightarrow> []
      | Some (ip, port) \<Rightarrow>
          if ip \<notin> set [''127.0.0.1'', ''::1''] then [ip @ '':'' @ str_nat port] else [])"

definition network_step ::
  "platform \<Rightarrow> proc \<Rightarrow> nat \<times> string list \<Rightarrow> exn + nat \<times> string list" where
  "network_step env p acc =
     or_continue
       (case proc_connections env p of
          Inl e \<Rightarrow> Inl e
        | Inr connections \<Rightarrow>
            Inr (fst acc + length connections, snd acc @ concat (map external_conn connections)))
       acc"

definition test_network_connections :: "platform \<Rightarrow> StealthTester \<Rightarrow> exn + StealthTester" where
  "test_network_connections env st =
     (if target_processes st = [] then
        Inr (add_result env st ''Network Connections'' True
              ''No processes to test network connections'' ''low'')
      else
        (case for_each (network_step env) (target_processes st) (0, []) of
           Inl e \<Rightarrow> Inl e
         | Inr (total_connections, suspicious_connections) \<Rightarrow>
             if suspicious_connections \<noteq> [] then
               Inr (add_result env st ''Network Connections'' False
                     (''External connections detected: '' @
                      repr_list (take 3 suspicious_connections)) ''medium'')
             else if total_connections > 0 then
               Inr (add_result env st ''Network Connections'' True
                     (''Only localhost connections detected ('' @ str_nat total_connections @
                      '')'') ''low'')
             else
               Inr (add_result env st ''Network Connections'' True
                     ''No network connections detected'' ''low'')))"

definition memory_mb_of :: "nat \<Rightarrow> real" where
  \<comment> \<open>\<open>memory_info.rss / 1024 / 1024\<close>\<close>
  "memory_mb_of rss = real rss / 1024 / 1024"

definition memory_step ::
  "platform \<Rightarrow> proc \<Rightarrow> real \<times> string list \<Rightarrow> exn + real \<times> string list" where
  "memory_step env p acc =
     (case proc_memory_rss env p of
        Inl e \<Rightarrow> or_continue (Inl e) acc
      | Inr rss \<Rightarrow>
          (let memory_mb = memory_mb_of rss;
               total_memory = fst acc + memory_mb
           in if memory_mb > 500 then
                (case proc_name env p of
                   Inl e \<Rightarrow> or_continue (Inl e) (total_memory, snd acc)
                 | Inr n \<Rightarrow>
                     Inr (total_memory, snd acc @ [n @ '': '' @ fmt_1f memory_mb @ ''MB'']))
              else Inr (total_memory, snd acc)))"

definition test_memory_usage :: "platform \<Rightarrow> StealthTester \<Rightarrow> exn + StealthTester" where
  "test_memory_usage env st =
     (if target_processes st = [] then
        Inr (add_result env st ''Memory Usage'' True ''No processes to test memory usage'' ''low'')
      else
        (case for_each (memory_step env) (target_processes st) (0, []) of
           Inl e \<Rightarrow> Inl e
         | Inr (total_memory, high_memory_procs) \<Rightarrow>
             if high_memory_procs \<noteq> [] then
               Inr (add_result env st ''Memory Usage'' False
                     (''High memory usage detected: '' @ repr_list high_memory_procs) ''medium'')
             else
               Inr (add_result env st ''Memory Usage'' True
                     (''Normal memory usage: '' @ fmt_1f total_memory @ ''MB total'') ''low'')))"

definition cpu_step :: "platform \<Rightarrow> nat \<Rightarrow> proc \<Rightarrow> real \<times> nat \<Rightarrow> exn + real \<times> nat" where
  "cpu_step env i p acc =
     or_continue
       (case proc_cpu_percent env i p of
          Inl e \<Rightarrow> Inl e
        | Inr cpu_percent \<Rightarrow> Inr (fst acc + cpu_percent, snd acc + 1))
       acc"

definition cpu_sample :: "platform \<Rightarrow> proc list \<Rightarrow> nat \<Rightarrow> real list \<Rightarrow> exn + real list" where
  \<comment> \<open>one of the five rounds; \<open>time.sleep(2)\<close> has no effect on the result\<close>
  "cpu_sample env procs i cpu_samples =
     (case for_each (cpu_step env i) procs (0, 0) of
        Inl e \<Rightarrow> Inl e
      | Inr (total_cpu, active_procs) \<Rightarrow>
          Inr (if active_procs > 0 then cpu_samples @ [total_cpu / real active_procs]
               else cpu_samples))"

definition py_max :: "real list \<Rightarrow> real" where
  \<comment> \<open>\<open>max\<close> of a non-empty list\<close>
  "py_max xs = fold max (tl xs) (hd xs)"

definition cpu_verdict :: "platform \<Rightarrow> StealthTester \<Rightarrow> real list \<Rightarrow> StealthTester" where
  \<comment> \<open>the part of \<open>test_cpu_usage\<close> after the sampling loop\<close>
  "cpu_verdict env st cpu_samples =
     (if cpu_samples \<noteq> [] then
        (let avg_cpu = sum_list cpu_samples / real (length cpu_samples);
             max_cpu = py_max cpu_samples
         in if max_cpu > 50 then
              add_result env st ''CPU Usage'' False
                (''High CPU usage detected: avg='' @ fmt_1f avg_cpu @ ''%, max='' @
                 fmt_1f max_cpu @ ''%'') ''medium''
            else
              add_result env st ''CPU Usage'' True
                (''Normal CPU usage: avg='' @ fmt_1f avg_cpu @ ''%, max='' @
                 fmt_1f max_cpu @ ''%'') ''low'')
      else
        add_result env st ''CPU Usage'' True ''No CPU usage data available'' ''low'')"

definition test_cpu_usage :: "platform \<Rightarrow> StealthTester \<Rightarrow> exn + StealthTester" where
  "test_cpu_usage env st =
     (if target_processes st = [] then
        Inr (add_result env st ''CPU Usage'' True ''No processes to test CPU usage'' ''low'')
      else
        (case for_each (cpu_sample env (target_processes st)) [0, 1, 2, 3, 4] [] of
           Inl e \<Rightarrow> Inl e
         | Inr cpu_samples \<Rightarrow> Inr (cpu_verdict env st cpu_samples)))"

section \<open>Probes: security\<close>

definition temp_file :: string where
  "temp_file = ''temp_screenshot_test.png''"

definition capture_body :: "platform \<Rightarrow> StealthTester \<Rightarrow> exn + StealthTester" where
  \<comment> \<open>the block under \<open>with mss.mss() as sct\<close>\<close>
  "capture_body env st =
     (case screenshot_to_png env temp_file of
        Inl e \<Rightarrow> Inl e
      | Inr u \<Rightarrow>
          if path_exists env temp_file then
            (case path_getsize env temp_file of
               Inl e \<Rightarrow> Inl e
             | Inr file_size \<Rightarrow>
                 if file_size > 1000 then
                   Inr (add_result env st ''Screen Capture Protection'' False
                         (''Screenshot successful ('' @ str_nat file_size @
                          '' bytes) - DRM protection may be bypassed'') ''critical'')
                 else
                   Inr (add_result env st ''Screen Capture Protection'' True
                         ''Screenshot blocked or corrupted - DRM protection working'' ''low''))
          else
            Inr (add_result env st ''Screen Capture Protection'' True
                  ''Screenshot completely blocked'' ''low''))"

definition capture_failed :: "platform \<Rightarrow> StealthTester \<Rightarrow> exn \<Rightarrow> StealthTester" where
  \<comment> \<open>the handler \<open>except Exception as e\<close> of the screen capture probe\<close>
  "capture_failed env st e =
     add_result env st ''Screen Capture Protection'' True
       (''Screenshot failed: '' @ exn_text e @ '' (DRM protection likely working)'') ''low''"

definition test_screen_capture_protection ::
  "platform \<Rightarrow> StealthTester \<Rightarrow> exn + StealthTester" where
  \<comment> \<open>Leaving the \<open>with\<close> block closes the session, also when the block raised; an
      exception of the closing replaces the one of the block. When the block has
      appended its result and the closing raises, the handler appends a second one.\<close>
  "test_screen_capture_protection env st =
     (case mss_open env of
        Inl e \<Rightarrow> Inr (capture_failed env st e)
      | Inr u \<Rightarrow>
          (case capture_body env st of
             Inl e \<Rightarrow>
               (case mss_close env of
                  Inl e' \<Rightarrow> Inr (capture_failed env st e')
                | Inr u' \<Rightarrow> Inr (capture_failed env st e))
           | Inr st' \<Rightarrow>
               (case mss_close env of
                  Inl e' \<Rightarrow> Inr (capture_failed env st' e')
                | Inr u' \<Rightarrow> Inr st')))"

definition injection_step :: "platform \<Rightarrow> proc \<Rightarrow> nat \<times> nat \<Rightarrow> nat \<times> nat" where
  \<comment> \<open>the inner \<open>except Exception: pass\<close> takes every raise, also one of \<open>CloseHandle\<close>\<close>
  "injection_step env p acc =
     (let injection_attempts = fst acc + 1
      in case OpenProcess env (PROCESS_VM_WRITE OR PROCESS_VM_OPERATION) False (proc_pid env p) of
           Inl e \<Rightarrow> (injection_attempts, snd acc)
         | Inr handle \<Rightarrow>
             if handle \<noteq> 0 then
               (case CloseHandle env handle of
                  Inl e \<Rightarrow> (injection_attempts, snd acc + 1)
                | Inr u \<Rightarrow> (injection_attempts, snd acc + 1))
             else (injection_attempts, snd acc))"

definition test_process_injection_resistance ::
  "platform \<Rightarrow> StealthTester \<Rightarrow> exn + StealthTester" where
  "test_process_injection_resistance env st =
     (if target_processes st = [] then
        Inr (add_result env st ''Process Injection Resistance'' True
              ''No processes to test injection resistance'' ''low'')
      else
        (let acc = foldl (\<lambda>a p. injection_step env p a) (0, 0) (target_processes st);
             injection_attempts = fst acc;
             successful_injections = snd acc
         in if successful_injections > 0 then
              Inr (add_result env st ''Process Injection Resistance'' False
                    (str_nat successful_injections @ ''/'' @ str_nat injection_attempts @
                     '' processes vulnerable to injection'') ''high'')
            else
              Inr (add_result env st ''Process Injection Resistance'' True
                    (''All '' @ str_nat injection_attempts @
                     '' processes protected from injection'') ''low'')))"

definition debug_step :: "platform \<Rightarrow> proc \<Rightarrow> nat \<times> nat \<Rightarrow> nat \<times> nat" where
  \<comment> \<open>a failed attach leaves the count; \<open>finally\<close> closes the handle, and a raise there
      is taken by the outer \<open>except Exception: pass\<close>\<close>
  "debug_step env p acc =
     (let debug_attempts = fst acc + 1
      in case OpenProcess env PROCESS_ALL_ACCESS False (proc_pid env p) of
           Inl e \<Rightarrow> (debug_attempts, snd acc)
         | Inr handle \<Rightarrow>
             if handle \<noteq> 0 then
               (let successful_debugs =
                      (case DebugActiveProcess env (proc_pid env p) of
                         Inl e \<Rightarrow> snd acc
                       | Inr u \<Rightarrow>
                           (case DebugActiveProcessStop env (proc_pid env p) of
                              Inl e \<Rightarrow> snd acc + 1
                            | Inr u' \<Rightarrow> snd acc + 1))
                in case CloseHandle env handle of
                     Inl e \<Rightarrow> (debug_attempts, successful_debugs)
                   | Inr u \<Rightarrow> (debug_attempts, successful_debugs))
             else (debug_attempts, snd acc))"

definition test_debugging_protection :: "platform \<Rightarrow> StealthTester \<Rightarrow> exn + StealthTester" where
  "test_debugging_protection env st =
     (if target_processes st = [] then
        Inr (add_result env st ''Anti-Debugging Protection'' True
              ''No processes to test debugging protection'' ''low'')
      else
        (let acc = foldl (\<lambda>a p. debug_step env p a) (0, 0) (target_processes st);
             debug_attempts = fst acc;
             successful_debugs = snd acc
         in if successful_debugs > 0 then
              Inr (add_result env st ''Anti-Debugging Protection'' False
                    (str_nat successful_debugs @ ''/'' @ str_nat debug_attempts @
                     '' processes vulnerable to debugging'') ''critical'')
            else
              Inr (add_result env st ''Anti-Debugging Protection'' True
                    (''All '' @ str_nat debug_attempts @
                     '' processes protected from debugging'') ''low'')))"

definition legitimate_patterns :: "string list" where
  "legitimate_patterns =
     [''windows'', ''system'', ''service'', ''update'', ''security'',
      ''network'', ''audio'', ''display'', ''manager'', ''configuration'']"

definition name_step :: "platform \<Rightarrow> proc \<Rightarrow> string list \<Rightarrow> exn + string list" where
  "name_step env p suspicious_names =
     or_continue
       (case proc_name env p of
          Inl e \<Rightarrow> Inl e
        | Inr n \<Rightarrow>
            (let name = lower n;
                 is_legitimate = list_ex (\<lambda>pattern. str_in pattern name) legitimate_patterns
             in Inr (if \<not> is_legitimate then suspicious_names @ [name] else suspicious_names)))
       suspicious_names"

definition test_process_name_legitimacy ::
  "platform \<Rightarrow> StealthTester \<Rightarrow> exn + StealthTester" where
  "test_process_name_legitimacy env st =
     (if target_processes st = [] then
        Inr (add_result env st ''Process Name Legitimacy'' True
              ''No processes to test name legitimacy'' ''low'')
      else
        (case for_each (name_step env) (target_processes st) [] of
           Inl e \<Rightarrow> Inl e
         | Inr suspicious_names \<Rightarrow>
             if suspicious_names \<noteq> [] then
               Inr (add_result env st ''Process Name Legitimacy'' False
                     (''Suspicious process names: '' @ repr_list suspicious_names) ''medium'')
             else
               Inr (add_result env st ''Process Name Legitimacy'' True
                     ''Process names appear legitimate'' ''low'')))"

section \<open>Running the catalogue\<close>

type_synonym probe = "platform \<Rightarrow> StealthTester \<Rightarrow> exn + StealthTester"

definition probes :: "probe list" where
  \<comment> \<open>the calls of \<open>run_all_tests\<close>, in its order\<close>
  "probes =
     [test_psutil_detection, test_tasklist_detection, test_wmic_detection,
      test_powershell_detection,
      test_window_enumeration, test_taskbar_presence, test_alt_tab_visibility,
      test_process_tree, test_network_connections, test_memory_usage, test_cpu_usage,
      test_screen_capture_protection, test_process_injection_resistance,
      test_debugging_protection, test_process_name_legitimacy]"

text \<open>
  The platform may change between two probes: probe number \<open>k\<close> of a run sees the platform
  \<open>envs k\<close>. An exception that leaves a probe ends the run.
\<close>

fun run_probes :: "probe list \<Rightarrow> (nat \<Rightarrow> platform) \<Rightarrow> nat \<Rightarrow> StealthTester \<Rightarrow> exn + StealthTester" where
  "run_probes [] envs k st = Inr st"
| "run_probes (p # ps) envs k st =
     (case p (envs k) st of Inl e \<Rightarrow> Inl e | Inr st' \<Rightarrow> run_probes ps envs (Suc k) st')"

section \<open>Scoring and reports\<close>

record console_report =
  shown_total :: nat
  shown_passed :: nat
  shown_score :: real
  critical_fails :: "TestResult list"
  high_fails :: "TestResult list"
  medium_fails :: "TestResult list"
  recommendation :: "string list"

definition recommendations :: "real \<Rightarrow> string list" where
  \<comment> \<open>the lines printed under RECOMMENDATIONS, without their pictograms and bullets\<close>
  "recommendations score =
     (if score < 70 then
        [''IMMEDIATE ACTION REQUIRED'',
         ''Implement additional stealth measures'',
         ''Address all critical and high priority issues'',
         ''Consider process hollowing or rootkit techniques'']
      else if score < 85 then
        [''GOOD STEALTH, NEEDS IMPROVEMENT'',
         ''Address remaining high/medium priority issues'',
         ''Implement advanced evasion techniques'',
         ''Regular testing against new detection methods'']
      else
        [''EXCELLENT STEALTH COVERAGE'',
         ''Maintain current security posture'',
         ''Monitor for new detection techniques'',
         ''Consider this a strong DRM protection baseline''])"

definition generate_report :: "StealthTester \<Rightarrow> console_report" where
  "generate_report st =
     (let total_tests = length (results st);
          passed_tests = length (filter passed (results st));
          score = (if total_tests > 0 then real passed_tests / real total_tests * 100 else 0)
      in \<lparr>shown_total = total_tests, shown_passed = passed_tests, shown_score = score,
          critical_fails =
            filter (\<lambda>r. \<not> passed r \<and> severity r = ''critical'') (results st),
          high_fails = filter (\<lambda>r. \<not> passed r \<and> severity r = ''high'') (results st),
          medium_fails = filter (\<lambda>r. \<not> passed r \<and> severity r = ''medium'') (results st),
          recommendation = recommendations score\<rparr>)"

definition run_all_tests ::
  "(nat \<Rightarrow> platform) \<Rightarrow> StealthTester \<Rightarrow> exn + StealthTester \<times> console_report" where
  "run_all_tests envs st =
     (case run_probes probes envs 0 st of
        Inl e \<Rightarrow> Inl e
      | Inr st' \<Rightarrow> Inr (st', generate_report st'))"

datatype json =
    JString string
  | JInt int
  | JFloat real
  | JBool bool
  | JList "json list"
  | JObject "(string \<times> json) list"

definition result_json :: "TestResult \<Rightarrow> json" where
  "result_json r =
     JObject [(''test'', JString (test r)), (''passed'', JBool (passed r)),
              (''details'', JString (details r)), (''severity'', JString (severity r)),
              (''timestamp'', JString (timestamp r))]"

definition count_fails :: "string \<Rightarrow> TestResult list \<Rightarrow> nat" where
  \<comment> \<open>\<open>len([r for r in results if not r.passed and r.severity == sev])\<close>\<close>
  "count_fails sev rs = length (filter (\<lambda>r. \<not> passed r \<and> severity r = sev) rs)"

definition report_data :: "platform \<Rightarrow> StealthTester \<Rightarrow> json" where
  "report_data env st =
     JObject
       [(''timestamp'', JString (now_isoformat env)),
        (''target_process'', JString (process_name st)),
        (''target_window'', JString (window_title st)),
        (''platform'', JString (platform_system env @ '' '' @ platform_release env)),
        (''total_tests'', JInt (int (length (results st)))),
        (''passed_tests'', JInt (int (length (filter passed (results st))))),
        (''score_percentage'',
           if results st \<noteq> [] then
             JFloat (real (length (filter passed (results st))) / real (length (results st)) * 100)
           else JInt 0),
        (''test_results'', JList (map result_json (results st))),
        (''summary'',
           JObject
             [(''critical_issues'', JInt (int (count_fails ''critical'' (results st)))),
              (''high_issues'', JInt (int (count_fails ''high'' (results st)))),
              (''medium_issues'', JInt (int (count_fails ''medium'' (results st)))),
              (''low_issues'', JInt (int (count_fails ''low'' (results st))))])]"

definition save_detailed_report ::
  "platform \<Rightarrow> StealthTester \<Rightarrow> string option \<Rightarrow> string \<times> json" where
  \<comment> \<open>the name of the file and the document dumped into it; the writing itself,
      which may raise, is \<open>write_file\<close> in \<open>main\<close>\<close>
  "save_detailed_report env st filename =
     (let fname = (case filename of
                     None \<Rightarrow> ''stealth_report_'' @ now_strftime env ''%Y%m%d_%H%M%S'' @ ''.json''
                   | Some f \<Rightarrow> f)
      in (fname, report_data env st))"

text \<open>Reading the persisted document back.\<close>

fun field :: "string \<Rightarrow> json option \<Rightarrow> json option" where
  "field k (Some (JObject kvs)) = map_of kvs k"
| "field k j = None"

fun keys :: "json option \<Rightarrow> string list" where
  "keys (Some (JObject kvs)) = map fst kvs"
| "keys j = []"

fun number :: "json option \<Rightarrow> real" where
  "number (Some (JInt i)) = real_of_int i"
| "number (Some (JFloat x)) = x"
| "number j = 0"

fun items :: "json option \<Rightarrow> json list" where
  "items (Some (JList js)) = js"
| "items j = []"

datatype outcome = Usage_exit int | Raised exn | Finished console_report string json

definition main :: "string list \<Rightarrow> (nat \<Rightarrow> platform) \<Rightarrow> outcome" where
  \<comment> \<open>\<open>argv\<close> is \<open>sys.argv\<close>; the report is saved on the platform that follows the probes,
      and an exception of the writing leaves \<open>main\<close>\<close>
  "main argv envs =
     (if length argv < 2 then Usage_exit 1
      else
        (let pname = argv ! 1;
             wtitle = (if length argv > 2 then argv ! 2 else [])
         in case run_all_tests envs (init pname wtitle) of
              Inl e \<Rightarrow> Raised e
            | Inr (tester, shown) \<Rightarrow>
                (case save_detailed_report (envs (length probes)) tester None of
                   (fname, doc) \<Rightarrow>
                     (case write_file (envs (length probes)) fname of
                        Inl e \<Rightarrow> Raised e
                      | Inr u \<Rightarrow> Finished shown fname doc))))"

section \<open>Definitions for the statements\<close>

definition spec_percentage :: "TestResult list \<Rightarrow> real" where
  \<comment> \<open>the specification's score: passedCount / totalCount * 100, and 0 for no results\<close>
  "spec_percentage rs =
     (if length rs = 0 then 0 else real (length (filter passed rs)) / real (length rs) * 100)"

definition sample_result :: "bool \<Rightarrow> string \<Rightarrow> TestResult" where
  "sample_result p sev =
     \<lparr>test = ''Memory Usage'', passed = p, details = ''sample'', severity = sev,
      timestamp = ''2024-05-01T12:00:00''\<rparr>"

definition sample_tester :: "TestResult list \<Rightarrow> StealthTester" where
  "sample_tester rs =
     \<lparr>process_name = ''secret'', window_title = [], results = rs,
      target_processes = [], target_windows = []\<rparr>"

definition demo_platform :: platform where
  \<comment> \<open>a platform with one matching process (pid 7) and one matching window (handle 200)\<close>
  "demo_platform =
     \<lparr>now_isoformat = ''2024-05-01T12:00:00'',
      now_strftime = (\<lambda>f. ''20240501_120000''),
      platform_system = ''Windows'',
      platform_release = ''10'',
      process_iter = Inr [4, 7],
      info_name = (\<lambda>p. if p = 7 then Inr ''SecretApp.exe''
                        else if p = 4 then Inr ''System'' else Inl (NoSuchProcess ''gone'')),
      proc_pid = int,
      proc_name = (\<lambda>p. if p = 7 then Inr ''SecretApp.exe''
                        else if p = 1 then Inr ''explorer.exe'' else Inl (NoSuchProcess ''gone'')),
      proc_parent = (\<lambda>p. if p = 7 then Inr (Some 1) else Inr None),
      proc_connections = (\<lambda>p. Inr []),
      proc_memory_rss = (\<lambda>p. Inr 629145600),
      proc_cpu_percent = (\<lambda>i p. Inr ([10, 20, 30, 70, 15] ! i)),
      subprocess_run = (\<lambda>argv. Inl (OtherException ''command not found'')),
      EnumWindows = Inr [100, 200],
      IsWindowVisible = (\<lambda>h. Inr 1),
      GetWindowText = (\<lambda>h. if h = 200 then Inr ''Secret Window'' else Inr []),
      GetWindowLong = (\<lambda>h i. Inr (if i = GWL_EXSTYLE then 0x80 else 0x10000000)),
      OpenProcess = (\<lambda>access inherit pid. Inl (OtherException ''Access is denied'')),
      CloseHandle = (\<lambda>h. Inr ()),
      DebugActiveProcess = (\<lambda>pid. Inl (OtherException ''no such function'')),
      DebugActiveProcessStop = (\<lambda>pid. Inl (OtherException ''no such function'')),
      mss_open = Inr (),
      screenshot_to_png = (\<lambda>f. Inl (OtherException ''capture failed'')),
      path_exists = (\<lambda>f. False),
      path_getsize = (\<lambda>f. Inr 0),
      mss_close = Inr (),
      write_file = (\<lambda>f. Inr ())\<rparr>"

definition window_dependent :: "probe list" where
  \<comment> \<open>the probes that read \<open>target_windows\<close>\<close>
  "window_dependent = [test_taskbar_presence, test_alt_tab_visibility]"

definition process_dependent :: "probe list" where
  \<comment> \<open>the probes that read \<open>target_processes\<close>\<close>
  "process_dependent =
     [test_process_tree, test_network_connections, test_memory_usage, test_cpu_usage,
      test_process_injection_resistance, test_debugging_protection,
      test_process_name_legitimacy]"

definition clean_pass :: "StealthTester \<Rightarrow> string \<Rightarrow> exn + StealthTester \<Rightarrow> bool" where
  \<comment> \<open>the probe returned, and appended one passing result of severity low whose details
      start with \<open>what\<close>\<close>
  "clean_pass st what out =
     (case out of
        Inl e \<Rightarrow> False
      | Inr st' \<Rightarrow>
          results st' \<noteq> [] \<and>
          st' = st\<lparr>results := results st @ [last (results st')]\<rparr> \<and>
          passed (last (results st')) \<and>
          severity (last (results st')) = ''low'' \<and>
          prefix what (details (last (results st'))))"

definition verdict_ok :: "TestResult \<Rightarrow> bool" where
  \<comment> \<open>a passing result is low or medium, a failing one medium, high or critical\<close>
  "verdict_ok r =
     (if passed r then severity r \<in> set [''low'', ''medium'']
      else severity r \<in> set [''medium'', ''high'', ''critical''])"

definition empty_platform :: platform where
  \<comment> \<open>a platform on which nothing matches\<close>
  "empty_platform = demo_platform\<lparr>process_iter := Inr [], EnumWindows := Inr []\<rparr>"

definition failing_severities :: "string set" where
  "failing_severities = {''medium'', ''high'', ''critical''}"

definition one_more :: "platform \<Rightarrow> StealthTester \<Rightarrow> StealthTester \<Rightarrow> bool" where
  \<comment> \<open>\<open>st'\<close> is \<open>st\<close> with exactly one result appended, stamped by \<open>env\<close>, with an
      admissible pair of verdict and severity; the two filters are unchanged\<close>
  "one_more env st st' \<longleftrightarrow>
     results st' = results st @ [last (results st')] \<and>
     verdict_ok (last (results st')) \<and>
     timestamp (last (results st')) = now_isoformat env \<and>
     process_name st' = process_name st \<and> window_title st' = window_title st"

definition sound_probe :: "probe \<Rightarrow> bool" where
  \<comment> \<open>whenever the probe returns, it has appended exactly one admissible result\<close>
  "sound_probe p \<longleftrightarrow>
     (\<forall>env st. case p env st of Inl e \<Rightarrow> True | Inr st' \<Rightarrow> one_more env st st')"

definition appended :: "StealthTester \<Rightarrow> StealthTester \<Rightarrow> TestResult list" where
  \<comment> \<open>the results of \<open>st'\<close> behind those of \<open>st\<close>\<close>
  "appended st st' = drop (length (results st)) (results st')"

definition some_more :: "StealthTester \<Rightarrow> StealthTester \<Rightarrow> bool" where
  \<comment> \<open>\<open>st'\<close> is \<open>st\<close> with one result or more appended, each with an admissible pair of
      verdict and severity; the two filters are unchanged\<close>
  "some_more st st' \<longleftrightarrow>
     results st' = results st @ appended st st' \<and> appended st st' \<noteq> [] \<and>
     list_all verdict_ok (appended st st') \<and>
     process_name st' = process_name st \<and> window_title st' = window_title st"

definition admissible_probe :: "probe \<Rightarrow> bool" where
  \<comment> \<open>whenever the probe returns, it has appended admissible results, at least one\<close>
  "admissible_probe p \<longleftrightarrow>
     (\<forall>env st. case p env st of Inl e \<Rightarrow> True | Inr st' \<Rightarrow> some_more st st')"

definition body_error :: "platform \<Rightarrow> exn option" where
  \<comment> \<open>the exception that the block under \<open>with mss.mss()\<close> raises, if any\<close>
  "body_error env =
     (case screenshot_to_png env temp_file of
        Inl e \<Rightarrow> Some e
      | Inr u \<Rightarrow>
          if path_exists env temp_file then
            (case path_getsize env temp_file of Inl e \<Rightarrow> Some e | Inr n \<Rightarrow> None)
          else None)"

definition close_after_verdict :: "platform \<Rightarrow> bool" where
  \<comment> \<open>the capture session opens, its block appends a verdict, and closing it raises\<close>
  "close_after_verdict env \<longleftrightarrow>
     \<not> isl (mss_open env) \<and> body_error env = None \<and> isl (mss_close env)"

definition entry_of :: "TestResult \<Rightarrow> json \<Rightarrow> bool" where
  \<comment> \<open>the entry of \<open>test_results\<close> has the five fields of the result, with its values\<close>
  "entry_of r j \<longleftrightarrow>
     keys (Some j) = [''test'', ''passed'', ''details'', ''severity'', ''timestamp''] \<and>
     field ''test'' (Some j) = Some (JString (test r)) \<and>
     field ''passed'' (Some j) = Some (JBool (passed r)) \<and>
     field ''details'' (Some j) = Some (JString (details r)) \<and>
     field ''severity'' (Some j) = Some (JString (severity r)) \<and>
     field ''timestamp'' (Some j) = Some (JString (timestamp r))"

definition failing :: "string \<Rightarrow> TestResult list \<Rightarrow> TestResult list" where
  \<comment> \<open>the failing results of one severity\<close>
  "failing sev rs = filter (\<lambda>r. \<not> passed r \<and> severity r = sev) rs"

definition failing_items :: "json \<Rightarrow> json list" where
  \<comment> \<open>the entries of \<open>test_results\<close> whose \<open>passed\<close> flag is false\<close>
  "failing_items doc =
     filter (\<lambda>j. field ''passed'' (Some j) = Some (JBool False))
       (items (field ''test_results'' (Some doc)))"

definition summary_count :: "string \<Rightarrow> json \<Rightarrow> real" where
  "summary_count k doc = number (field k (field ''summary'' (Some doc)))"

definition demo_result :: "string \<Rightarrow> bool \<Rightarrow> string \<Rightarrow> string \<Rightarrow> TestResult" where
  "demo_result t p d sev =
     \<lparr>test = t, passed = p, details = d, severity = sev, timestamp = ''2024-05-01T12:00:00''\<rparr>"

definition demo_results :: "TestResult list" where
  \<comment> \<open>what the fifteen probes report on \<open>demo_platform\<close> for the process filter Secret\<close>
  "demo_results =
     [demo_result ''PSUtil Process Detection'' False
        ''Found 1 processes: ['SecretApp.exe']'' ''high'',
      demo_result ''TaskList Detection'' True
        ''TaskList test failed: command not found'' ''medium'',
      demo_result ''WMIC Detection'' True ''WMIC test failed: command not found'' ''medium'',
      demo_result ''PowerShell Detection'' True
        ''PowerShell test failed: command not found'' ''medium'',
      demo_result ''Win32 Window Enumeration'' False
        (''Found 1 windows: ['' @ [CHR 0x22] @ ''HWND:200 '' @ [CHR 0x27] @ ''Secret Window'' @
         [CHR 0x27, CHR 0x22] @ '']'') ''critical'',
      demo_result ''Taskbar Presence'' True ''Windows hidden from taskbar'' ''low'',
      demo_result ''Alt+Tab Visibility'' True ''Windows hidden from Alt+Tab'' ''low'',
      demo_result ''Process Tree Analysis'' True ''Process tree appears legitimate'' ''low'',
      demo_result ''Network Connections'' True ''No network connections detected'' ''low'',
      demo_result ''Memory Usage'' False
        ''High memory usage detected: ['SecretApp.exe: 600.0MB']'' ''medium'',
      demo_result ''CPU Usage'' False
        ''High CPU usage detected: avg=29.0%, max=70.0%'' ''medium'',
      demo_result ''Screen Capture Protection'' True
        ''Screenshot failed: capture failed (DRM protection likely working)'' ''low'',
      demo_result ''Process Injection Resistance'' True
        ''All 1 processes protected from injection'' ''low'',
      demo_result ''Anti-Debugging Protection'' True
        ''All 1 processes protected from debugging'' ''low'',
      demo_result ''Process Name Legitimacy'' False
        ''Suspicious process names: ['secretapp.exe']'' ''medium'']"

definition demo_final :: StealthTester where
  "demo_final =
     \<lparr>process_name = ''secret'', window_title = [], results = demo_results,
      target_processes = [7], target_windows = [(200, ''Secret Window'')]\<rparr>"

definition demo_envs :: "nat \<Rightarrow> platform" where
  "demo_envs k = demo_platform"

definition demo_argv :: "string list" where
  "demo_argv = [''stealth_tester.py'', ''Secret'']"

definition spec_window_match :: "string \<Rightarrow> string \<Rightarrow> bool" where
  \<comment> \<open>the specification's window match: the filter is empty, or the title contains it,
      case-insensitively\<close>
  "spec_window_match wfilter title \<longleftrightarrow>
     lower wfilter = [] \<or> str_in (lower wfilter) (lower title)"

definition visible_titled :: "platform \<Rightarrow> hwnd \<Rightarrow> string \<Rightarrow> bool" where
  \<comment> \<open>the window is reported visible and its title reads as \<open>title\<close>\<close>
  "visible_titled env h title \<longleftrightarrow>
     (case IsWindowVisible env h of Inl e \<Rightarrow> False | Inr visible \<Rightarrow> visible \<noteq> 0) \<and>
     GetWindowText env h = Inr title"

definition keeps_processes :: "probe \<Rightarrow> bool" where
  "keeps_processes p \<longleftrightarrow>
     (\<forall>env st. case p env st of
                 Inl e \<Rightarrow> True
               | Inr st' \<Rightarrow> target_processes st' = target_processes st)"

definition keeps_windows :: "probe \<Rightarrow> bool" where
  "keeps_windows p \<longleftrightarrow>
     (\<forall>env st. case p env st of
                 Inl e \<Rightarrow> True
               | Inr st' \<Rightarrow> target_windows st' = target_windows st)"

definition cpu_details :: "real list \<Rightarrow> string" where
  \<comment> \<open>the details of the CPU result for a non-empty list of samples\<close>
  "cpu_details samples =
     (if 50 < Max (set samples) then ''High CPU usage detected: avg=''
      else ''Normal CPU usage: avg='') @
     fmt_1f (sum_list samples / real (length samples)) @ ''%, max='' @
     fmt_1f (Max (set samples)) @ ''%''"

definition high_memory :: "platform \<Rightarrow> proc \<Rightarrow> bool" where
  \<comment> \<open>the resident memory of the process can be read and exceeds 500 MB\<close>
  "high_memory env p \<longleftrightarrow>
     (case proc_memory_rss env p of Inl e \<Rightarrow> False | Inr rss \<Rightarrow> 500 < memory_mb_of rss)"

definition memory_entry :: "platform \<Rightarrow> proc \<Rightarrow> string" where
  \<comment> \<open>the name of the process and its memory in MB, as the details list them\<close>
  "memory_entry env p =
     (case proc_name env p of
        Inl e \<Rightarrow> []
      | Inr n \<Rightarrow>
          (case proc_memory_rss env p of
             Inl e \<Rightarrow> []
           | Inr rss \<Rightarrow> n @ '': '' @ fmt_1f (memory_mb_of rss) @ ''MB''))"

definition memory_flagged :: "platform \<Rightarrow> proc \<Rightarrow> bool" where
  \<comment> \<open>the memory read exceeds 500 MB and the name of the process can be read\<close>
  "memory_flagged env p \<longleftrightarrow> high_memory env p \<and> \<not> isl (proc_name env p)"

definition caught_or_returned :: "exn + 'a \<Rightarrow> bool" where
  \<comment> \<open>the call returns, or raises one of the two exceptions of psutil that the probes catch\<close>
  "caught_or_returned r = (case r of Inl e \<Rightarrow> psutil_gone e | Inr v \<Rightarrow> True)"

definition memory_caught :: "platform \<Rightarrow> proc \<Rightarrow> bool" where
  \<comment> \<open>the calls that the memory probe makes for this process raise nothing it does not catch\<close>
  "memory_caught env p \<longleftrightarrow>
     caught_or_returned (proc_memory_rss env p) \<and>
     (high_memory env p \<longrightarrow> caught_or_returned (proc_name env p))"

definition denied_platform :: platform where
  \<comment> \<open>as \<open>demo_platform\<close>, but reading the name of a process is denied\<close>
  "denied_platform = demo_platform\<lparr>proc_name := (\<lambda>p. Inl (AccessDenied ''denied''))\<rparr>"











section \<open>Verified properties\<close>

subsection \<open>The score\<close>

lemma spec_percentage_bounds: "0 \<le> spec_percentage rs \<and> spec_percentage rs \<le> 100"
proof (cases "rs = []")
  case True
  then show ?thesis by (simp add: spec_percentage_def)
next
  case False
  have le: "real (length (filter passed rs)) \<le> real (length rs)"
    using length_filter_le [of passed rs] by simp
  have pos: "0 < real (length rs)" using False by simp
  have "real (length (filter passed rs)) * 100 / real (length rs) \<le> 100"
    using le pos by (simp add: pos_divide_le_eq)
  then show ?thesis using False by (simp add: spec_percentage_def)
qed

text \<open>
  Claim C1. For every sequence of results, the score printed by \<open>generate_report\<close> and the
  \<open>score_percentage\<close> of the persisted document are both the number of passed results
  divided by the number of results, times 100; the score is 0 when there is no result, and
  it always lies between 0 and 100.
\<close>

theorem score_is_pass_ratio:
  "shown_score (generate_report st) = spec_percentage (results st) \<and>
   number (field ''score_percentage'' (Some (snd (save_detailed_report env st filename))))
     = spec_percentage (results st) \<and>
   spec_percentage [] = 0 \<and>
   0 \<le> spec_percentage (results st) \<and> spec_percentage (results st) \<le> 100"
  using spec_percentage_bounds [of "results st"]
  by (simp add: generate_report_def save_detailed_report_def report_data_def
      spec_percentage_def Let_def)

theorem score_is_pass_ratio_witness:
  "shown_score (generate_report
     (sample_tester [sample_result True ''low'', sample_result False ''high'',
                     sample_result True ''low''])) = 200 / 3"
  using score_is_pass_ratio
    [of "sample_tester [sample_result True ''low'', sample_result False ''high'',
                        sample_result True ''low'']"]
  by (simp add: spec_percentage_def sample_tester_def sample_result_def)

subsection \<open>The recommendation tier\<close>

text \<open>
  Claim C9. For every final score the report renderer prints exactly one recommendation
  block, chosen by fixed thresholds: below 70 the "immediate action" block, from 70 and
  below 85 the "needs improvement" block, from 85 on the "excellent" block.
\<close>

theorem recommendation_by_thresholds:
  "recommendation (generate_report st) = recommendations (shown_score (generate_report st)) \<and>
   (score < 70 \<longrightarrow> hd (recommendations score) = ''IMMEDIATE ACTION REQUIRED'') \<and>
   (70 \<le> score \<and> score < 85 \<longrightarrow>
      hd (recommendations score) = ''GOOD STEALTH, NEEDS IMPROVEMENT'') \<and>
   (85 \<le> score \<longrightarrow> hd (recommendations score) = ''EXCELLENT STEALTH COVERAGE'')"
  by (simp add: generate_report_def recommendations_def Let_def)

theorem recommendation_by_thresholds_witness:
  "hd (recommendations 50) = ''IMMEDIATE ACTION REQUIRED'' \<and>
   hd (recommendations 70) = ''GOOD STEALTH, NEEDS IMPROVEMENT'' \<and>
   hd (recommendations 85) = ''EXCELLENT STEALTH COVERAGE''"
  using recommendation_by_thresholds [of _ 50] recommendation_by_thresholds [of _ 70]
    recommendation_by_thresholds [of _ 85]
  by simp

subsection \<open>Absent targets\<close>

lemma window_dependent_clean:
  "target_windows st = [] \<Longrightarrow>
   clean_pass st ''No windows'' (test_taskbar_presence env st) \<and>
   clean_pass st ''No windows'' (test_alt_tab_visibility env st)"
  by (simp add: clean_pass_def test_taskbar_presence_def test_alt_tab_visibility_def
      add_result_def)

lemma process_dependent_clean:
  "target_processes st = [] \<Longrightarrow>
   clean_pass st ''No processes'' (test_process_tree env st) \<and>
   clean_pass st ''No processes'' (test_network_connections env st) \<and>
   clean_pass st ''No processes'' (test_memory_usage env st) \<and>
   clean_pass st ''No processes'' (test_cpu_usage env st) \<and>
   clean_pass st ''No processes'' (test_process_injection_resistance env st) \<and>
   clean_pass st ''No processes'' (test_debugging_protection env st) \<and>
   clean_pass st ''No processes'' (test_process_name_legitimacy env st)"
  by (simp add: clean_pass_def test_process_tree_def test_network_connections_def
      test_memory_usage_def test_cpu_usage_def test_process_injection_resistance_def
      test_debugging_protection_def test_process_name_legitimacy_def add_result_def)

lemma resolver_clean:
  "(find_target_processes env st = Inr [] \<longrightarrow>
      clean_pass st ''No processes'' (test_psutil_detection env st)) \<and>
   (find_target_windows env st = Inr [] \<longrightarrow>
      clean_pass st ''No windows'' (test_window_enumeration env st))"
  by (simp add: clean_pass_def test_psutil_detection_def test_window_enumeration_def
      add_result_def)

text \<open>
  Claim C3. Every probe that reads the matched windows or the matched processes, run with
  that list empty, returns and appends one result with passed = True, severity "low" and
  details that say which target is absent ("No windows ...", "No processes ..."). The two
  resolving probes do the same when their own search finds nothing.
\<close>

theorem absent_target_passes_low:
  "(\<forall>p \<in> set window_dependent.
      target_windows st = [] \<longrightarrow> clean_pass st ''No windows'' (p env st)) \<and>
   (\<forall>p \<in> set process_dependent.
      target_processes st = [] \<longrightarrow> clean_pass st ''No processes'' (p env st)) \<and>
   (find_target_processes env st = Inr [] \<longrightarrow>
      clean_pass st ''No processes'' (test_psutil_detection env st)) \<and>
   (find_target_windows env st = Inr [] \<longrightarrow>
      clean_pass st ''No windows'' (test_window_enumeration env st))"
  using window_dependent_clean [of st env] process_dependent_clean [of st env]
    resolver_clean [of env st]
  by (simp add: window_dependent_def process_dependent_def)

theorem absent_target_passes_low_witness:
  "target_windows (init ''Secret'' []) = [] \<and>
   target_processes (init ''Secret'' []) = [] \<and>
   find_target_processes empty_platform (init ''Secret'' []) = Inr [] \<and>
   find_target_windows empty_platform (init ''Secret'' []) = Inr [] \<and>
   clean_pass (init ''Secret'' []) ''No windows''
     (test_taskbar_presence empty_platform (init ''Secret'' [])) \<and>
   clean_pass (init ''Secret'' []) ''No processes''
     (test_memory_usage empty_platform (init ''Secret'' [])) \<and>
   clean_pass (init ''Secret'' []) ''No processes''
     (test_psutil_detection empty_platform (init ''Secret'' [])) \<and>
   clean_pass (init ''Secret'' []) ''No windows''
     (test_window_enumeration empty_platform (init ''Secret'' []))"
proof -
  have tw: "target_windows (init ''Secret'' []) = []"
    and tp: "target_processes (init ''Secret'' []) = []"
    by (simp_all add: init_def)
  have fp: "find_target_processes empty_platform (init ''Secret'' []) = Inr []"
    by (simp add: find_target_processes_def empty_platform_def)
  have fw: "find_target_windows empty_platform (init ''Secret'' []) = Inr []"
    by (simp add: find_target_windows_def empty_platform_def)
  show ?thesis
    using absent_target_passes_low [of "init ''Secret'' []" empty_platform] tw tp fp fw
    by (simp add: window_dependent_def process_dependent_def)
qed

subsection \<open>Every probe appends one result\<close>

lemma one_more_add_result:
  "one_more env st (add_result env st t p d sev) \<longleftrightarrow>
   (if p then sev \<in> set [''low'', ''medium''] else sev \<in> set [''medium'', ''high'', ''critical''])"
  by (simp add: one_more_def add_result_def verdict_ok_def)

lemma one_more_add_result_processes:
  "one_more env st ((add_result env st t p d sev)\<lparr>target_processes := ps\<rparr>) \<longleftrightarrow>
   (if p then sev \<in> set [''low'', ''medium''] else sev \<in> set [''medium'', ''high'', ''critical''])"
  by (simp add: one_more_def add_result_def verdict_ok_def)

lemma one_more_add_result_windows:
  "one_more env st ((add_result env st t p d sev)\<lparr>target_windows := ws\<rparr>) \<longleftrightarrow>
   (if p then sev \<in> set [''low'', ''medium''] else sev \<in> set [''medium'', ''high'', ''critical''])"
  by (simp add: one_more_def add_result_def verdict_ok_def)

lemmas one_more_simps =
  one_more_add_result one_more_add_result_processes one_more_add_result_windows

lemma psutil_sound: "sound_probe test_psutil_detection"
  by (simp add: sound_probe_def test_psutil_detection_def one_more_simps split: sum.split)

lemma tasklist_sound: "sound_probe test_tasklist_detection"
  by (simp add: sound_probe_def test_tasklist_detection_def one_more_simps Let_def
      split: sum.split prod.split)

lemma wmic_sound: "sound_probe test_wmic_detection"
  by (simp add: sound_probe_def test_wmic_detection_def one_more_simps Let_def
      split: sum.split prod.split)

lemma powershell_sound: "sound_probe test_powershell_detection"
  by (simp add: sound_probe_def test_powershell_detection_def one_more_simps Let_def
      split: sum.split prod.split)

lemma window_enumeration_sound: "sound_probe test_window_enumeration"
  by (simp add: sound_probe_def test_window_enumeration_def one_more_simps Let_def
      split: sum.split)

lemma taskbar_sound: "sound_probe test_taskbar_presence"
  by (simp add: sound_probe_def test_taskbar_presence_def one_more_simps Let_def)

lemma alt_tab_sound: "sound_probe test_alt_tab_visibility"
  by (simp add: sound_probe_def test_alt_tab_visibility_def one_more_simps Let_def)

lemma process_tree_sound: "sound_probe test_process_tree"
  by (simp add: sound_probe_def test_process_tree_def one_more_simps split: sum.split)

lemma network_sound: "sound_probe test_network_connections"
  by (simp add: sound_probe_def test_network_connections_def one_more_simps
      split: sum.split prod.split)

lemma memory_sound: "sound_probe test_memory_usage"
  by (simp add: sound_probe_def test_memory_usage_def one_more_simps
      split: sum.split prod.split)

lemma cpu_sound: "sound_probe test_cpu_usage"
  by (simp add: sound_probe_def test_cpu_usage_def cpu_verdict_def one_more_simps Let_def
      split: sum.split)

lemma some_more_iff:
  "results st' = results st @ new \<Longrightarrow>
   some_more st st' \<longleftrightarrow>
     new \<noteq> [] \<and> list_all verdict_ok new \<and>
     process_name st' = process_name st \<and> window_title st' = window_title st"
  by (simp add: some_more_def appended_def)

lemma one_more_some_more: "one_more env st st' \<Longrightarrow> some_more st st'"
proof -
  assume one: "one_more env st st'"
  then have "results st' = results st @ [last (results st')]" by (simp add: one_more_def)
  from some_more_iff [OF this] one show ?thesis by (simp add: one_more_def)
qed

lemma sound_admissible: "sound_probe p \<Longrightarrow> admissible_probe p"
  unfolding sound_probe_def admissible_probe_def
proof (intro allI)
  fix env st
  assume all: "\<forall>env st. case p env st of Inl e \<Rightarrow> True | Inr st' \<Rightarrow> one_more env st st'"
  then have "case p env st of Inl e \<Rightarrow> True | Inr st' \<Rightarrow> one_more env st st'" by blast
  then show "case p env st of Inl e \<Rightarrow> True | Inr st' \<Rightarrow> some_more st st'"
    by (cases "p env st") (simp_all add: one_more_some_more)
qed

lemma capture_body_Inl: "capture_body env st = Inl e \<longleftrightarrow> body_error env = Some e"
  by (simp add: capture_body_def body_error_def split: sum.split)

lemma capture_body_Inr:
  "capture_body env st = Inr st' \<Longrightarrow> body_error env = None \<and> one_more env st st'"
  by (auto simp: capture_body_def body_error_def one_more_simps split: sum.splits if_splits)

lemma capture_body_cases:
  obtains e where "capture_body env st = Inl e" "body_error env = Some e"
  | st' where "capture_body env st = Inr st'" "body_error env = None" "one_more env st st'"
proof (cases "capture_body env st")
  case (Inl e)
  then show ?thesis using that(1) capture_body_Inl by blast
next
  case (Inr st')
  then show ?thesis using that(2) capture_body_Inr by blast
qed

lemma one_more_capture_failed: "one_more env st (capture_failed env st e)"
  by (simp add: capture_failed_def one_more_simps)

lemma capture_failed_second:
  assumes "one_more env st st'"
  shows "some_more st (capture_failed env st' e)"
    and "length (appended st (capture_failed env st' e)) = 2"
    and "last (results (capture_failed env st' e)) = last (results (capture_failed env st e))"
proof -
  from assms have r: "results st' = results st @ [last (results st')]"
    and ok: "verdict_ok (last (results st'))"
    and same: "process_name st' = process_name st" "window_title st' = window_title st"
    by (simp_all add: one_more_def)
  let ?r = "\<lparr>test = ''Screen Capture Protection'', passed = True,
      details = ''Screenshot failed: '' @ exn_text e @ '' (DRM protection likely working)'',
      severity = ''low'', timestamp = now_isoformat env\<rparr>"
  have res: "results (capture_failed env st' e) = results st @ [last (results st'), ?r]"
    using r by (simp add: capture_failed_def add_result_def)
  have "verdict_ok ?r" by (simp add: verdict_ok_def)
  with some_more_iff [OF res] ok same show "some_more st (capture_failed env st' e)"
    by (simp add: capture_failed_def add_result_def)
  show "length (appended st (capture_failed env st' e)) = 2"
    by (simp add: appended_def res)
  show "last (results (capture_failed env st' e)) = last (results (capture_failed env st e))"
    by (simp add: capture_failed_def add_result_def)
qed

lemma screen_capture_admissible: "admissible_probe test_screen_capture_protection"
  unfolding admissible_probe_def
proof (intro allI)
  fix env st
  show "case test_screen_capture_protection env st of
          Inl e \<Rightarrow> True | Inr st' \<Rightarrow> some_more st st'"
  proof (cases rule: capture_body_cases [of env st])
    case (1 e)
    then show ?thesis
      using one_more_some_more [OF one_more_capture_failed]
      by (simp add: test_screen_capture_protection_def split: sum.split)
  next
    case (2 st')
    then show ?thesis
      using one_more_some_more [OF one_more_capture_failed] one_more_some_more [OF 2(3)]
        capture_failed_second(1) [OF 2(3)]
      by (simp add: test_screen_capture_protection_def split: sum.split)
  qed
qed

lemma screen_capture_one_more:
  assumes "\<not> close_after_verdict env" and "test_screen_capture_protection env st = Inr st'"
  shows "one_more env st st'"
proof (cases rule: capture_body_cases [of env st])
  case (1 e)
  with assms(2) show ?thesis
    using one_more_capture_failed [of env st]
    by (auto simp: test_screen_capture_protection_def split: sum.splits)
next
  case (2 st1)
  with assms show ?thesis
    using one_more_capture_failed [of env st]
    by (auto simp: test_screen_capture_protection_def close_after_verdict_def
        split: sum.splits)
qed

lemma injection_sound: "sound_probe test_process_injection_resistance"
  by (simp add: sound_probe_def test_process_injection_resistance_def one_more_simps Let_def)

lemma debugging_sound: "sound_probe test_debugging_protection"
  by (simp add: sound_probe_def test_debugging_protection_def one_more_simps Let_def)

lemma name_legitimacy_sound: "sound_probe test_process_name_legitimacy"
  by (simp add: sound_probe_def test_process_name_legitimacy_def one_more_simps
      split: sum.split)

lemma probes_sound:
  "p \<in> set probes \<Longrightarrow> p \<noteq> test_screen_capture_protection \<Longrightarrow> sound_probe p"
  unfolding probes_def
  using psutil_sound tasklist_sound wmic_sound powershell_sound window_enumeration_sound
    taskbar_sound alt_tab_sound process_tree_sound network_sound memory_sound cpu_sound
    injection_sound debugging_sound name_legitimacy_sound
  by auto

lemma probes_admissible: "p \<in> set probes \<Longrightarrow> admissible_probe p"
  using probes_sound [of p] sound_admissible [of p] screen_capture_admissible by blast

lemma probes_one_more:
  assumes "p \<in> set probes" and "p env st = Inr st'"
    and "p = test_screen_capture_protection \<Longrightarrow> \<not> close_after_verdict env"
  shows "one_more env st st'"
proof (cases "p = test_screen_capture_protection")
  case True
  with assms(2,3) show ?thesis using screen_capture_one_more by blast
next
  case False
  from probes_sound [OF assms(1) False] assms(2) show ?thesis
    unfolding sound_probe_def by (erule_tac allE [of _ env], erule_tac allE [of _ st]) simp
qed

lemma admissible_probeD:
  "admissible_probe p \<Longrightarrow> p env st = Inr st' \<Longrightarrow> some_more st st'"
  unfolding admissible_probe_def by (erule allE [of _ env], erule allE [of _ st]) simp


lemma verdict_ok_failing: "verdict_ok r \<Longrightarrow> \<not> passed r \<Longrightarrow> severity r \<in> failing_severities"
  by (auto simp: verdict_ok_def failing_severities_def split: if_splits)

lemma run_probes_results:
  "\<forall>p \<in> set ps. admissible_probe p \<Longrightarrow> run_probes ps envs k st = Inr st' \<Longrightarrow>
   \<exists>new. results st' = results st @ new \<and> length ps \<le> length new \<and>
         (\<forall>r \<in> set new. verdict_ok r) \<and>
         process_name st' = process_name st \<and> window_title st' = window_title st"
proof (induction ps arbitrary: k st)
  case Nil
  then show ?case by simp
next
  case (Cons p ps)
  from Cons.prems(2) obtain st1 where
    step: "p (envs k) st = Inr st1" and rest: "run_probes ps envs (Suc k) st1 = Inr st'"
    by (auto split: sum.splits)
  from Cons.prems(1) have "admissible_probe p" by simp
  from admissible_probeD [OF this step] have more: "some_more st st1" .
  from Cons.prems(1) have "\<forall>q \<in> set ps. admissible_probe q" by simp
  from Cons.IH [OF this rest] obtain new where
    new: "results st' = results st1 @ new" "length ps \<le> length new"
      "\<forall>x \<in> set new. verdict_ok x"
      "process_name st' = process_name st1" "window_title st' = window_title st1"
    by blast
  let ?first = "appended st st1"
  have "results st' = results st @ (?first @ new)"
    using more new(1) by (simp add: some_more_def)
  moreover have "length (p # ps) \<le> length (?first @ new)"
  proof -
    from more have "?first \<noteq> []" by (simp add: some_more_def)
    then have "1 \<le> length ?first" by (cases ?first) simp_all
    with new(2) show ?thesis by simp
  qed
  moreover have "\<forall>x \<in> set (?first @ new). verdict_ok x"
    using more new(3) by (auto simp: some_more_def list_all_iff)
  moreover have "process_name st' = process_name st \<and> window_title st' = window_title st"
    using more new(4,5) by (simp add: some_more_def)
  ultimately show ?case by blast
qed

lemma run_all_tests_results:
  assumes "run_all_tests envs (init pname wtitle) = Inr (st, shown)"
  shows "15 \<le> length (results st) \<and> (\<forall>r \<in> set (results st). verdict_ok r) \<and>
         shown = generate_report st \<and>
         process_name st = lower pname \<and> window_title st = lower wtitle"
proof -
  from assms have run: "run_probes probes envs 0 (init pname wtitle) = Inr st"
    and shown: "shown = generate_report st"
    by (auto simp: run_all_tests_def split: sum.splits)
  have "\<forall>p \<in> set probes. admissible_probe p" using probes_admissible by blast
  from run_probes_results [OF this run] obtain new where
    "results st = results (init pname wtitle) @ new" "length probes \<le> length new"
    "\<forall>r \<in> set new. verdict_ok r"
    "process_name st = process_name (init pname wtitle)"
    "window_title st = window_title (init pname wtitle)"
    by blast
  then show ?thesis using shown by (simp add: init_def probes_def)
qed

lemma count_fails_sum:
  "\<forall>r \<in> set rs. verdict_ok r \<Longrightarrow>
   count_fails ''critical'' rs + count_fails ''high'' rs + count_fails ''medium'' rs +
     count_fails ''low'' rs = length (filter (\<lambda>r. \<not> passed r) rs)"
proof (induction rs)
  case Nil
  then show ?case by (simp add: count_fails_def)
next
  case (Cons r rs)
  then have ih: "count_fails ''critical'' rs + count_fails ''high'' rs +
      count_fails ''medium'' rs + count_fails ''low'' rs = length (filter (\<lambda>r. \<not> passed r) rs)"
    and ok: "verdict_ok r"
    by simp_all
  show ?case
  proof (cases "passed r")
    case True
    then show ?thesis using ih by (simp add: count_fails_def)
  next
    case False
    with ok have "severity r = ''medium'' \<or> severity r = ''high'' \<or> severity r = ''critical''"
      by (simp add: verdict_ok_def)
    then show ?thesis using ih False by (auto simp: count_fails_def)
  qed
qed

lemma count_fails_low: "\<forall>r \<in> set rs. verdict_ok r \<Longrightarrow> count_fails ''low'' rs = 0"
proof -
  assume ok: "\<forall>r \<in> set rs. verdict_ok r"
  have "\<forall>r \<in> set rs. \<not> (\<not> passed r \<and> severity r = ''low'')"
  proof
    fix r assume "r \<in> set rs"
    with ok have "verdict_ok r" by simp
    then show "\<not> (\<not> passed r \<and> severity r = ''low'')"
      by (auto simp: verdict_ok_def)
  qed
  then have "filter (\<lambda>r. \<not> passed r \<and> severity r = ''low'') rs = []"
    by (simp add: filter_empty_conv)
  then show ?thesis by (simp add: count_fails_def)
qed

lemma failing_items_report:
  "failing_items (report_data env st) = map result_json (filter (\<lambda>r. \<not> passed r) (results st))"
  by (simp add: failing_items_def report_data_def filter_map o_def result_json_def)

subsection \<open>A concrete run\<close>

lemma str_nat_digit: "n < 10 \<Longrightarrow> str_nat n = [digit_char n]"
  by (simp add: str_nat.simps)

lemma str_nat_200: "str_nat 200 = ''200''"
  by (simp add: str_nat.simps digit_char_def)

lemma fmt_1f_29: "fmt_1f 29 = ''29.0''"
  by (simp add: fmt_1f_def round_half_even_def str_nat.simps digit_char_def)

lemma fmt_1f_70: "fmt_1f 70 = ''70.0''"
  by (simp add: fmt_1f_def round_half_even_def str_nat.simps digit_char_def)

lemma fmt_1f_600: "fmt_1f 600 = ''600.0''"
  by (simp add: fmt_1f_def round_half_even_def str_nat.simps digit_char_def)

lemma lower_secretapp: "lower ''SecretApp.exe'' = ''secretapp.exe''"
  by (simp add: lower_def lower_char_def)

lemma demo_fields:
  "now_isoformat demo_platform = ''2024-05-01T12:00:00''"
  "now_strftime demo_platform f = ''20240501_120000''"
  "platform_system demo_platform = ''Windows''"
  "platform_release demo_platform = ''10''"
  "process_iter demo_platform = Inr [4, 7]"
  "info_name demo_platform p =
     (if p = 7 then Inr ''SecretApp.exe''
      else if p = 4 then Inr ''System'' else Inl (NoSuchProcess ''gone''))"
  "proc_pid demo_platform p = int p"
  "proc_name demo_platform p =
     (if p = 7 then Inr ''SecretApp.exe''
      else if p = 1 then Inr ''explorer.exe'' else Inl (NoSuchProcess ''gone''))"
  "proc_parent demo_platform p = (if p = 7 then Inr (Some 1) else Inr None)"
  "proc_connections demo_platform p = Inr []"
  "proc_memory_rss demo_platform p = Inr 629145600"
  "proc_cpu_percent demo_platform k p = Inr ([10, 20, 30, 70, 15] ! k)"
  "subprocess_run demo_platform argv = Inl (OtherException ''command not found'')"
  "EnumWindows demo_platform = Inr [100, 200]"
  "IsWindowVisible demo_platform h = Inr 1"
  "GetWindowText demo_platform h = (if h = 200 then Inr ''Secret Window'' else Inr [])"
  "GetWindowLong demo_platform h i = Inr (if i = GWL_EXSTYLE then 0x80 else 0x10000000)"
  "OpenProcess demo_platform access inherit pid = Inl (OtherException ''Access is denied'')"
  "CloseHandle demo_platform h = Inr ()"
  "DebugActiveProcess demo_platform pid = Inl (OtherException ''no such function'')"
  "DebugActiveProcessStop demo_platform pid = Inl (OtherException ''no such function'')"
  "screenshot_to_png demo_platform f = Inl (OtherException ''capture failed'')"
  "path_exists demo_platform f = False"
  "path_getsize demo_platform f = Inr 0"
  "mss_open demo_platform = Inr ()"
  "mss_close demo_platform = Inr ()"
  "write_file demo_platform f = Inr ()"
  by (simp_all add: demo_platform_def)

lemma demo_psutil:
  "process_name st = ''secret'' \<Longrightarrow>
   test_psutil_detection demo_platform st =
     Inr ((add_result demo_platform st ''PSUtil Process Detection'' False
            ''Found 1 processes: ['SecretApp.exe']'' ''high'')\<lparr>target_processes := [7]\<rparr>)"
  by (simp add: test_psutil_detection_def find_target_processes_def demo_fields
      or_continue_def lower_def lower_char_def repr_list_def repr_str_def repr_char_def
      str_nat_digit digit_char_def Let_def)

lemma demo_commands:
  "test_tasklist_detection demo_platform st =
     Inr (add_result demo_platform st ''TaskList Detection'' True
           ''TaskList test failed: command not found'' ''medium'')"
  "test_wmic_detection demo_platform st =
     Inr (add_result demo_platform st ''WMIC Detection'' True
           ''WMIC test failed: command not found'' ''medium'')"
  "test_powershell_detection demo_platform st =
     Inr (add_result demo_platform st ''PowerShell Detection'' True
           ''PowerShell test failed: command not found'' ''medium'')"
  by (simp_all add: test_tasklist_detection_def test_wmic_detection_def
      test_powershell_detection_def demo_fields)

lemma demo_find_windows:
  "window_title st = [] \<Longrightarrow>
   find_target_windows demo_platform st = Inr [(200, ''Secret Window'')]"
  by (simp add: find_target_windows_def enum_window_callback_def demo_fields)

lemma demo_window_enumeration:
  "window_title st = [] \<Longrightarrow>
   test_window_enumeration demo_platform st =
     Inr ((add_result demo_platform st ''Win32 Window Enumeration'' False
            (''Found 1 windows: ['' @ [CHR 0x22] @ ''HWND:200 '' @ [CHR 0x27] @
             ''Secret Window'' @ [CHR 0x27, CHR 0x22] @ '']'') ''critical'')
          \<lparr>target_windows := [(200, ''Secret Window'')]\<rparr>)"
  by (simp add: test_window_enumeration_def demo_find_windows window_detail_def str_int_def
      str_nat_200 str_nat_digit digit_char_def repr_list_def repr_str_def repr_char_def
      Let_def)

lemma demo_window_probes:
  assumes "target_windows st = [(200, ''Secret Window'')]"
  shows "test_taskbar_presence demo_platform st =
           Inr (add_result demo_platform st ''Taskbar Presence'' True
                 ''Windows hidden from taskbar'' ''low'')"
    and "test_alt_tab_visibility demo_platform st =
           Inr (add_result demo_platform st ''Alt+Tab Visibility'' True
                 ''Windows hidden from Alt+Tab'' ''low'')"
  using assms
  by (simp_all add: test_taskbar_presence_def taskbar_step_def test_alt_tab_visibility_def
      alt_tab_step_def demo_fields WS_EX_TOOLWINDOW_def Let_def strip_def is_space_def)

lemma demo_process_tree:
  "target_processes st = [7] \<Longrightarrow>
   test_process_tree demo_platform st =
     Inr (add_result demo_platform st ''Process Tree Analysis'' True
           ''Process tree appears legitimate'' ''low'')"
  by (simp add: test_process_tree_def process_tree_step_def or_continue_def demo_fields
      lower_def lower_char_def legitimate_parents_def)

lemma demo_network:
  "target_processes st = [7] \<Longrightarrow>
   test_network_connections demo_platform st =
     Inr (add_result demo_platform st ''Network Connections'' True
           ''No network connections detected'' ''low'')"
  by (simp add: test_network_connections_def network_step_def or_continue_def demo_fields)

lemma memory_mb_of_600: "memory_mb_of 629145600 = 600"
  by (simp add: memory_mb_of_def)

lemma demo_memory:
  "target_processes st = [7] \<Longrightarrow>
   test_memory_usage demo_platform st =
     Inr (add_result demo_platform st ''Memory Usage'' False
           ''High memory usage detected: ['SecretApp.exe: 600.0MB']'' ''medium'')"
  by (simp add: test_memory_usage_def memory_step_def demo_fields memory_mb_of_600 fmt_1f_600
      repr_list_def repr_str_def repr_char_def Let_def)

lemma demo_cpu_samples:
  "for_each (cpu_sample demo_platform [7]) [0, 1, 2, 3, 4] [] = Inr [10, 20, 30, 70, 15]"
  by (simp add: cpu_sample_def cpu_step_def or_continue_def demo_fields)

lemma cpu_verdict_example:
  "cpu_verdict env st [10, 20, 30, 70, 15] =
     add_result env st ''CPU Usage'' False
       ''High CPU usage detected: avg=29.0%, max=70.0%'' ''medium''"
  by (simp add: cpu_verdict_def py_max_def fmt_1f_29 fmt_1f_70)

lemma demo_cpu:
  "target_processes st = [7] \<Longrightarrow>
   test_cpu_usage demo_platform st =
     Inr (add_result demo_platform st ''CPU Usage'' False
           ''High CPU usage detected: avg=29.0%, max=70.0%'' ''medium'')"
  by (simp only: test_cpu_usage_def demo_cpu_samples cpu_verdict_example list.simps if_False
      sum.case)

lemma demo_screen_capture:
  "test_screen_capture_protection demo_platform st =
     Inr (add_result demo_platform st ''Screen Capture Protection'' True
           ''Screenshot failed: capture failed (DRM protection likely working)'' ''low'')"
  by (simp add: test_screen_capture_protection_def capture_body_def capture_failed_def
      demo_fields)

lemma demo_injection:
  "target_processes st = [7] \<Longrightarrow>
   test_process_injection_resistance demo_platform st =
     Inr (add_result demo_platform st ''Process Injection Resistance'' True
           ''All 1 processes protected from injection'' ''low'')"
  by (simp add: test_process_injection_resistance_def injection_step_def demo_fields
      str_nat_digit digit_char_def)

lemma demo_debugging:
  "target_processes st = [7] \<Longrightarrow>
   test_debugging_protection demo_platform st =
     Inr (add_result demo_platform st ''Anti-Debugging Protection'' True
           ''All 1 processes protected from debugging'' ''low'')"
  by (simp add: test_debugging_protection_def debug_step_def demo_fields
      str_nat_digit digit_char_def)

lemma demo_name_legitimacy:
  "target_processes st = [7] \<Longrightarrow>
   test_process_name_legitimacy demo_platform st =
     Inr (add_result demo_platform st ''Process Name Legitimacy'' False
           ''Suspicious process names: ['secretapp.exe']'' ''medium'')"
  by (simp add: test_process_name_legitimacy_def name_step_def or_continue_def demo_fields
      lower_secretapp legitimate_patterns_def repr_list_def repr_str_def repr_char_def Let_def)

lemma demo_run_probes: "run_probes probes demo_envs 0 (init ''Secret'' []) = Inr demo_final"
  by (simp add: probes_def demo_envs_def init_def lower_def lower_char_def
      demo_psutil demo_commands demo_window_enumeration demo_window_probes demo_process_tree
      demo_network demo_memory demo_cpu demo_screen_capture demo_injection demo_debugging
      demo_name_legitimacy add_result_def demo_fields demo_final_def demo_results_def
      demo_result_def)

lemma demo_run_all_tests:
  "run_all_tests demo_envs (init ''Secret'' []) = Inr (demo_final, generate_report demo_final)"
  by (simp add: run_all_tests_def demo_run_probes)

lemma demo_main:
  "main demo_argv demo_envs =
     Finished (generate_report demo_final) ''stealth_report_20240501_120000.json''
       (report_data demo_platform demo_final)"
  by (simp add: main_def demo_argv_def demo_run_all_tests save_detailed_report_def
      demo_envs_def demo_fields)

subsection \<open>Failing results and the persisted report\<close>

lemma main_Finished:
  assumes "main argv envs = Finished shown fname doc"
  obtains st where
    "run_all_tests envs (init (argv ! 1) (if length argv > 2 then argv ! 2 else [])) =
       Inr (st, shown)"
    "doc = report_data (envs (length probes)) st"
  using assms
  by (auto simp: main_def save_detailed_report_def Let_def
      split: if_splits sum.splits prod.splits)

lemma report_counts:
  assumes ok: "\<forall>r \<in> set (results st). verdict_ok r"
  shows "number (field ''passed_tests'' (Some (report_data env st))) +
           real (length (failing_items (report_data env st))) =
         number (field ''total_tests'' (Some (report_data env st)))"
    and "summary_count ''critical_issues'' (report_data env st) +
           summary_count ''high_issues'' (report_data env st) +
           summary_count ''medium_issues'' (report_data env st) +
           summary_count ''low_issues'' (report_data env st) =
         real (length (failing_items (report_data env st)))"
    and "summary_count ''low_issues'' (report_data env st) = 0"
proof -
  have split: "length (filter passed (results st)) +
      length (filter (\<lambda>r. \<not> passed r) (results st)) = length (results st)"
    by (rule sum_length_filter_compl)
  have fi: "length (failing_items (report_data env st)) =
      length (filter (\<lambda>r. \<not> passed r) (results st))"
    by (simp add: failing_items_report)
  have "real (length (filter passed (results st))) +
      real (length (filter (\<lambda>r. \<not> passed r) (results st))) = real (length (results st))"
    using split by (simp only: of_nat_add [symmetric])
  then show "number (field ''passed_tests'' (Some (report_data env st))) +
           real (length (failing_items (report_data env st))) =
         number (field ''total_tests'' (Some (report_data env st)))"
    by (simp add: fi) (simp add: report_data_def)
  have "real (count_fails ''critical'' (results st)) + real (count_fails ''high'' (results st)) +
      real (count_fails ''medium'' (results st)) + real (count_fails ''low'' (results st)) =
      real (length (filter (\<lambda>r. \<not> passed r) (results st)))"
    using count_fails_sum [OF ok] by (simp only: of_nat_add [symmetric])
  then show "summary_count ''critical_issues'' (report_data env st) +
           summary_count ''high_issues'' (report_data env st) +
           summary_count ''medium_issues'' (report_data env st) +
           summary_count ''low_issues'' (report_data env st) =
         real (length (failing_items (report_data env st)))"
    by (simp add: fi) (simp add: summary_count_def report_data_def)
  show "summary_count ''low_issues'' (report_data env st) = 0"
    using count_fails_low [OF ok] by (simp add: summary_count_def report_data_def)
qed

lemma report_fields:
  "keys (Some (report_data env st)) =
     [''timestamp'', ''target_process'', ''target_window'', ''platform'', ''total_tests'',
      ''passed_tests'', ''score_percentage'', ''test_results'', ''summary'']"
  "\<forall>j \<in> set (items (field ''test_results'' (Some (report_data env st)))).
     keys (Some j) = [''test'', ''passed'', ''details'', ''severity'', ''timestamp'']"
  "keys (field ''summary'' (Some (report_data env st))) =
     [''critical_issues'', ''high_issues'', ''medium_issues'', ''low_issues'']"
  "items (field ''test_results'' (Some (report_data env st))) = map result_json (results st)"
  by (auto simp: report_data_def result_json_def)

lemma report_entries:
  "list_all2 entry_of (results st) (items (field ''test_results'' (Some (report_data env st))))"
  by (simp add: report_data_def list_all2_map2 list_all2_same entry_of_def result_json_def)

lemma report_values:
  "field ''timestamp'' (Some (report_data env st)) = Some (JString (now_isoformat env))"
  "field ''target_process'' (Some (report_data env st)) = Some (JString (process_name st))"
  "field ''target_window'' (Some (report_data env st)) = Some (JString (window_title st))"
  "field ''platform'' (Some (report_data env st)) =
     Some (JString (platform_system env @ '' '' @ platform_release env))"
  "field ''total_tests'' (Some (report_data env st)) = Some (JInt (int (length (results st))))"
  "field ''passed_tests'' (Some (report_data env st)) =
     Some (JInt (int (length (filter passed (results st)))))"
  "number (field ''score_percentage'' (Some (report_data env st))) =
     spec_percentage (results st)"
  by (simp_all add: report_data_def spec_percentage_def)

lemma report_summary:
  "field ''critical_issues'' (field ''summary'' (Some (report_data env st))) =
     Some (JInt (int (length (failing ''critical'' (results st)))))"
  "field ''high_issues'' (field ''summary'' (Some (report_data env st))) =
     Some (JInt (int (length (failing ''high'' (results st)))))"
  "field ''medium_issues'' (field ''summary'' (Some (report_data env st))) =
     Some (JInt (int (length (failing ''medium'' (results st)))))"
  "field ''low_issues'' (field ''summary'' (Some (report_data env st))) =
     Some (JInt (int (length (failing ''low'' (results st)))))"
  by (simp_all add: report_data_def count_fails_def failing_def)

lemma main_fname:
  assumes "main argv envs = Finished shown fname doc"
  shows "fname =
    ''stealth_report_'' @ now_strftime (envs (length probes)) ''%Y%m%d_%H%M%S'' @ ''.json''"
  using assms
  by (auto simp: main_def save_detailed_report_def Let_def
      split: if_splits sum.splits prod.splits)

text \<open>
  Claim C4. The document that a run persists satisfies: \<open>passed_tests\<close> plus the number of
  failing entries of \<open>test_results\<close> is \<open>total_tests\<close>; the four counts of \<open>summary\<close> add up
  to the number of failing entries; and the document has exactly the nine fields timestamp,
  target_process, target_window, platform, total_tests, passed_tests, score_percentage,
  test_results and summary, in which every entry of test_results has the five fields test,
  passed, details, severity and timestamp (one entry per result, in order), and summary
  has the four counts. The fields hold the values of the run: timestamp is the time of
  saving, target_process and target_window are the two filters in lower case, platform is
  the system and its release, total_tests and passed_tests count the results of the run and
  the passing ones, score_percentage is their ratio times 100, the entries of test_results
  are the results of the run, in the order of the run, each with the name, the flag, the
  details, the severity and the timestamp of its result, and each count of summary is the
  number of failing results of that severity.
\<close>

theorem persisted_report_consistent:
  assumes "main argv envs = Finished shown fname doc"
  shows "number (field ''passed_tests'' (Some doc)) + real (length (failing_items doc)) =
           number (field ''total_tests'' (Some doc)) \<and>
         summary_count ''critical_issues'' doc + summary_count ''high_issues'' doc +
           summary_count ''medium_issues'' doc + summary_count ''low_issues'' doc =
           real (length (failing_items doc)) \<and>
         keys (Some doc) =
           [''timestamp'', ''target_process'', ''target_window'', ''platform'', ''total_tests'',
            ''passed_tests'', ''score_percentage'', ''test_results'', ''summary''] \<and>
         (\<forall>j \<in> set (items (field ''test_results'' (Some doc))).
            keys (Some j) = [''test'', ''passed'', ''details'', ''severity'', ''timestamp'']) \<and>
         real (length (items (field ''test_results'' (Some doc)))) =
           number (field ''total_tests'' (Some doc)) \<and>
         keys (field ''summary'' (Some doc)) =
           [''critical_issues'', ''high_issues'', ''medium_issues'', ''low_issues''] \<and>
         fname =
           ''stealth_report_'' @ now_strftime (envs (length probes)) ''%Y%m%d_%H%M%S'' @
           ''.json'' \<and>
         (\<exists>st.
            run_all_tests envs (init (argv ! 1) (if length argv > 2 then argv ! 2 else [])) =
              Inr (st, shown) \<and>
            field ''timestamp'' (Some doc) =
              Some (JString (now_isoformat (envs (length probes)))) \<and>
            field ''target_process'' (Some doc) = Some (JString (lower (argv ! 1))) \<and>
            field ''target_window'' (Some doc) =
              Some (JString (lower (if length argv > 2 then argv ! 2 else []))) \<and>
            field ''platform'' (Some doc) =
              Some (JString (platform_system (envs (length probes)) @ '' '' @
                             platform_release (envs (length probes)))) \<and>
            field ''total_tests'' (Some doc) = Some (JInt (int (length (results st)))) \<and>
            field ''passed_tests'' (Some doc) =
              Some (JInt (int (length (filter passed (results st))))) \<and>
            number (field ''score_percentage'' (Some doc)) = spec_percentage (results st) \<and>
            list_all2 entry_of (results st) (items (field ''test_results'' (Some doc))) \<and>
            field ''critical_issues'' (field ''summary'' (Some doc)) =
              Some (JInt (int (length (failing ''critical'' (results st))))) \<and>
            field ''high_issues'' (field ''summary'' (Some doc)) =
              Some (JInt (int (length (failing ''high'' (results st))))) \<and>
            field ''medium_issues'' (field ''summary'' (Some doc)) =
              Some (JInt (int (length (failing ''medium'' (results st))))) \<and>
            field ''low_issues'' (field ''summary'' (Some doc)) =
              Some (JInt (int (length (failing ''low'' (results st))))))"
proof -
  let ?env = "envs (length probes)"
  from assms obtain st where
    run: "run_all_tests envs (init (argv ! 1) (if length argv > 2 then argv ! 2 else [])) =
       Inr (st, shown)"
    and doc: "doc = report_data ?env st"
    by (rule main_Finished)
  from run_all_tests_results [OF run] have ok: "\<forall>r \<in> set (results st). verdict_ok r"
    and pn: "process_name st = lower (argv ! 1)"
    and wt: "window_title st = lower (if length argv > 2 then argv ! 2 else [])"
    by simp_all
  have total: "real (length (items (field ''test_results'' (Some doc)))) =
      number (field ''total_tests'' (Some doc))"
    unfolding doc by (simp add: report_fields(4)) (simp add: report_data_def)
  have old: "number (field ''passed_tests'' (Some doc)) + real (length (failing_items doc)) =
           number (field ''total_tests'' (Some doc)) \<and>
         summary_count ''critical_issues'' doc + summary_count ''high_issues'' doc +
           summary_count ''medium_issues'' doc + summary_count ''low_issues'' doc =
           real (length (failing_items doc)) \<and>
         keys (Some doc) =
           [''timestamp'', ''target_process'', ''target_window'', ''platform'', ''total_tests'',
            ''passed_tests'', ''score_percentage'', ''test_results'', ''summary''] \<and>
         (\<forall>j \<in> set (items (field ''test_results'' (Some doc))).
            keys (Some j) = [''test'', ''passed'', ''details'', ''severity'', ''timestamp'']) \<and>
         real (length (items (field ''test_results'' (Some doc)))) =
           number (field ''total_tests'' (Some doc)) \<and>
         keys (field ''summary'' (Some doc)) =
           [''critical_issues'', ''high_issues'', ''medium_issues'', ''low_issues'']"
    using report_counts(1,2) [OF ok, of ?env] report_fields(1,2,3) [of ?env st] total
    unfolding doc by blast
  have new: "run_all_tests envs (init (argv ! 1) (if length argv > 2 then argv ! 2 else [])) =
              Inr (st, shown) \<and>
            field ''timestamp'' (Some doc) = Some (JString (now_isoformat ?env)) \<and>
            field ''target_process'' (Some doc) = Some (JString (lower (argv ! 1))) \<and>
            field ''target_window'' (Some doc) =
              Some (JString (lower (if length argv > 2 then argv ! 2 else []))) \<and>
            field ''platform'' (Some doc) =
              Some (JString (platform_system ?env @ '' '' @ platform_release ?env)) \<and>
            field ''total_tests'' (Some doc) = Some (JInt (int (length (results st)))) \<and>
            field ''passed_tests'' (Some doc) =
              Some (JInt (int (length (filter passed (results st))))) \<and>
            number (field ''score_percentage'' (Some doc)) = spec_percentage (results st) \<and>
            list_all2 entry_of (results st) (items (field ''test_results'' (Some doc))) \<and>
            field ''critical_issues'' (field ''summary'' (Some doc)) =
              Some (JInt (int (length (failing ''critical'' (results st))))) \<and>
            field ''high_issues'' (field ''summary'' (Some doc)) =
              Some (JInt (int (length (failing ''high'' (results st))))) \<and>
            field ''medium_issues'' (field ''summary'' (Some doc)) =
              Some (JInt (int (length (failing ''medium'' (results st))))) \<and>
            field ''low_issues'' (field ''summary'' (Some doc)) =
              Some (JInt (int (length (failing ''low'' (results st)))))"
    using run report_values [of ?env st] report_summary [of ?env st] report_entries [of st ?env]
    unfolding doc pn [symmetric] wt [symmetric] by simp
  from old new main_fname [OF assms] show ?thesis by blast
qed

theorem persisted_report_consistent_witness:
  "main demo_argv demo_envs =
     Finished (generate_report demo_final) ''stealth_report_20240501_120000.json''
       (report_data demo_platform demo_final) \<and>
   number (field ''passed_tests'' (Some (report_data demo_platform demo_final))) = 10 \<and>
   length (failing_items (report_data demo_platform demo_final)) = 5 \<and>
   number (field ''total_tests'' (Some (report_data demo_platform demo_final))) = 15 \<and>
   summary_count ''critical_issues'' (report_data demo_platform demo_final) +
     summary_count ''high_issues'' (report_data demo_platform demo_final) +
     summary_count ''medium_issues'' (report_data demo_platform demo_final) +
     summary_count ''low_issues'' (report_data demo_platform demo_final) = 5 \<and>
   field ''timestamp'' (Some (report_data demo_platform demo_final)) =
     Some (JString ''2024-05-01T12:00:00'') \<and>
   field ''target_process'' (Some (report_data demo_platform demo_final)) =
     Some (JString ''secret'') \<and>
   field ''target_window'' (Some (report_data demo_platform demo_final)) = Some (JString []) \<and>
   field ''platform'' (Some (report_data demo_platform demo_final)) =
     Some (JString ''Windows 10'') \<and>
   list_all2 entry_of demo_results
     (items (field ''test_results'' (Some (report_data demo_platform demo_final)))) \<and>
   field ''critical_issues'' (field ''summary'' (Some (report_data demo_platform demo_final))) =
     Some (JInt 1) \<and>
   field ''high_issues'' (field ''summary'' (Some (report_data demo_platform demo_final))) =
     Some (JInt 1) \<and>
   field ''medium_issues'' (field ''summary'' (Some (report_data demo_platform demo_final))) =
     Some (JInt 3) \<and>
   field ''low_issues'' (field ''summary'' (Some (report_data demo_platform demo_final))) =
     Some (JInt 0)"
proof -
  let ?doc = "report_data demo_platform demo_final"
  have fails: "length (failing_items ?doc) = 5"
    by (simp add: failing_items_report demo_final_def demo_results_def demo_result_def)
  have passed: "number (field ''passed_tests'' (Some ?doc)) = 10"
    by (simp add: report_data_def demo_final_def demo_results_def demo_result_def)
  have argv: "demo_argv ! 1 = ''Secret''" "\<not> length demo_argv > 2"
    by (simp_all add: demo_argv_def)
  have env: "demo_envs (length probes) = demo_platform" by (simp add: demo_envs_def)
  have low: "lower ''Secret'' = ''secret''" "lower [] = []"
    by (simp_all add: lower_def lower_char_def)
  have res: "results demo_final = demo_results" by (simp add: demo_final_def)
  have counts: "length (failing ''critical'' demo_results) = 1"
    "length (failing ''high'' demo_results) = 1"
    "length (failing ''medium'' demo_results) = 3"
    "length (failing ''low'' demo_results) = 0"
    by (simp_all add: failing_def demo_results_def demo_result_def)
  note inst = persisted_report_consistent [OF demo_main]
  from inst obtain st where
    run: "run_all_tests demo_envs
        (init (demo_argv ! 1) (if length demo_argv > 2 then demo_argv ! 2 else [])) =
      Inr (st, generate_report demo_final)"
    and vals:
      "field ''timestamp'' (Some ?doc) =
         Some (JString (now_isoformat (demo_envs (length probes))))"
      "field ''target_process'' (Some ?doc) = Some (JString (lower (demo_argv ! 1)))"
      "field ''target_window'' (Some ?doc) =
         Some (JString (lower (if length demo_argv > 2 then demo_argv ! 2 else [])))"
      "field ''platform'' (Some ?doc) =
         Some (JString (platform_system (demo_envs (length probes)) @ '' '' @
                        platform_release (demo_envs (length probes))))"
      "list_all2 entry_of (results st) (items (field ''test_results'' (Some ?doc)))"
      "field ''critical_issues'' (field ''summary'' (Some ?doc)) =
         Some (JInt (int (length (failing ''critical'' (results st)))))"
      "field ''high_issues'' (field ''summary'' (Some ?doc)) =
         Some (JInt (int (length (failing ''high'' (results st)))))"
      "field ''medium_issues'' (field ''summary'' (Some ?doc)) =
         Some (JInt (int (length (failing ''medium'' (results st)))))"
      "field ''low_issues'' (field ''summary'' (Some ?doc)) =
         Some (JInt (int (length (failing ''low'' (results st)))))"
    by blast
  from run have "run_all_tests demo_envs (init ''Secret'' []) =
      Inr (st, generate_report demo_final)"
    by (simp add: demo_argv_def)
  with demo_run_all_tests have st: "st = demo_final" by simp
  from inst have sums:
    "number (field ''passed_tests'' (Some ?doc)) + real (length (failing_items ?doc)) =
       number (field ''total_tests'' (Some ?doc))"
    "summary_count ''critical_issues'' ?doc + summary_count ''high_issues'' ?doc +
       summary_count ''medium_issues'' ?doc + summary_count ''low_issues'' ?doc =
       real (length (failing_items ?doc))"
    by blast+
  from sums fails passed have total: "number (field ''total_tests'' (Some ?doc)) = 15"
    and sum5: "summary_count ''critical_issues'' ?doc + summary_count ''high_issues'' ?doc +
       summary_count ''medium_issues'' ?doc + summary_count ''low_issues'' ?doc = 5"
    by simp_all
  from vals have concrete:
    "field ''timestamp'' (Some ?doc) = Some (JString ''2024-05-01T12:00:00'')"
    "field ''target_process'' (Some ?doc) = Some (JString ''secret'')"
    "field ''target_window'' (Some ?doc) = Some (JString [])"
    "field ''platform'' (Some ?doc) = Some (JString ''Windows 10'')"
    "list_all2 entry_of demo_results (items (field ''test_results'' (Some ?doc)))"
    "field ''critical_issues'' (field ''summary'' (Some ?doc)) = Some (JInt 1)"
    "field ''high_issues'' (field ''summary'' (Some ?doc)) = Some (JInt 1)"
    "field ''medium_issues'' (field ''summary'' (Some ?doc)) = Some (JInt 3)"
    "field ''low_issues'' (field ''summary'' (Some ?doc)) = Some (JInt 0)"
    unfolding st res counts argv env low by (simp_all add: demo_fields demo_argv_def low)
  show ?thesis
    using demo_main fails passed total sum5 concrete by simp
qed

text \<open>
  Claim C10. No probe produces a failing result of severity "low": whenever a probe
  returns, every result it appended is either passing or of severity medium, high or
  critical. A probe appends exactly one result, the screen capture probe a second one when
  closing its session raises after the verdict. Hence, after a run, the persisted
  \<open>low_issues\<close> count is 0 and the three lists of the console summary (critical, high,
  medium) together hold every failing result.
\<close>

theorem failures_never_low:
  "''low'' \<notin> failing_severities \<and>
   (\<forall>p \<in> set probes. \<forall>env st st'. p env st = Inr st' \<longrightarrow>
      results st' = results st @ appended st st' \<and> appended st st' \<noteq> [] \<and>
      (\<forall>r \<in> set (appended st st'). \<not> passed r \<longrightarrow> severity r \<in> failing_severities) \<and>
      ((p = test_screen_capture_protection \<longrightarrow> \<not> close_after_verdict env) \<longrightarrow>
         results st' = results st @ [last (results st')] \<and>
         (\<not> passed (last (results st')) \<longrightarrow>
            severity (last (results st')) \<in> failing_severities))) \<and>
   (run_all_tests envs (init pname wtitle) = Inr (st, shown) \<longrightarrow>
      (\<forall>r \<in> set (results st). \<not> passed r \<longrightarrow> severity r \<in> failing_severities) \<and>
      summary_count ''low_issues'' (report_data env st) = 0 \<and>
      set (critical_fails shown) \<union> set (high_fails shown) \<union> set (medium_fails shown) =
        {r \<in> set (results st). \<not> passed r})"
proof -
  have a: "''low'' \<notin> failing_severities" by (simp add: failing_severities_def)
  have b: "\<forall>p \<in> set probes. \<forall>env st st'. p env st = Inr st' \<longrightarrow>
      results st' = results st @ appended st st' \<and> appended st st' \<noteq> [] \<and>
      (\<forall>r \<in> set (appended st st'). \<not> passed r \<longrightarrow> severity r \<in> failing_severities) \<and>
      ((p = test_screen_capture_protection \<longrightarrow> \<not> close_after_verdict env) \<longrightarrow>
         results st' = results st @ [last (results st')] \<and>
         (\<not> passed (last (results st')) \<longrightarrow>
            severity (last (results st')) \<in> failing_severities))"
  proof (intro ballI allI impI)
    fix p env st st'
    assume p: "p \<in> set probes" and step: "p env st = Inr st'"
    from admissible_probeD [OF probes_admissible [OF p] step] have more: "some_more st st'" .
    have 1: "results st' = results st @ appended st st'" "appended st st' \<noteq> []"
      using more by (simp_all add: some_more_def)
    have 2: "\<forall>r \<in> set (appended st st'). \<not> passed r \<longrightarrow> severity r \<in> failing_severities"
      using more verdict_ok_failing by (auto simp: some_more_def list_all_iff)
    have 3: "results st' = results st @ [last (results st')] \<and>
         (\<not> passed (last (results st')) \<longrightarrow>
            severity (last (results st')) \<in> failing_severities)"
      if "p = test_screen_capture_protection \<longrightarrow> \<not> close_after_verdict env"
    proof -
      from probes_one_more [OF p step] that have "one_more env st st'" by blast
      then show ?thesis by (simp add: one_more_def verdict_ok_failing)
    qed
    from 1 2 3 show "results st' = results st @ appended st st' \<and> appended st st' \<noteq> [] \<and>
      (\<forall>r \<in> set (appended st st'). \<not> passed r \<longrightarrow> severity r \<in> failing_severities) \<and>
      ((p = test_screen_capture_protection \<longrightarrow> \<not> close_after_verdict env) \<longrightarrow>
         results st' = results st @ [last (results st')] \<and>
         (\<not> passed (last (results st')) \<longrightarrow>
            severity (last (results st')) \<in> failing_severities))"
      by blast
  qed
  have c: "(\<forall>r \<in> set (results st). \<not> passed r \<longrightarrow> severity r \<in> failing_severities) \<and>
      summary_count ''low_issues'' (report_data env st) = 0 \<and>
      set (critical_fails shown) \<union> set (high_fails shown) \<union> set (medium_fails shown) =
        {r \<in> set (results st). \<not> passed r}"
    if run: "run_all_tests envs (init pname wtitle) = Inr (st, shown)"
  proof -
    from run_all_tests_results [OF run] have ok: "\<forall>r \<in> set (results st). verdict_ok r"
      and shown: "shown = generate_report st"
      by simp_all
    have "summary_count ''low_issues'' (report_data env st) = 0"
      using report_counts(3) [OF ok] .
    moreover have "set (critical_fails shown) \<union> set (high_fails shown) \<union>
        set (medium_fails shown) = {r \<in> set (results st). \<not> passed r}"
      using ok unfolding shown
      by (auto simp: generate_report_def Let_def verdict_ok_def split: if_splits)
    moreover have "\<forall>r \<in> set (results st). \<not> passed r \<longrightarrow> severity r \<in> failing_severities"
      using ok verdict_ok_failing by blast
    ultimately show ?thesis by blast
  qed
  from a b c show ?thesis by blast
qed

theorem failures_never_low_witness:
  "test_memory_usage \<in> set probes \<and>
   \<not> close_after_verdict demo_platform \<and>
   test_memory_usage demo_platform demo_final =
     Inr (add_result demo_platform demo_final ''Memory Usage'' False
           ''High memory usage detected: ['SecretApp.exe: 600.0MB']'' ''medium'') \<and>
   severity (last (results (add_result demo_platform demo_final ''Memory Usage'' False
       ''High memory usage detected: ['SecretApp.exe: 600.0MB']'' ''medium''))) \<in>
     failing_severities \<and>
   run_all_tests demo_envs (init ''Secret'' []) = Inr (demo_final, generate_report demo_final) \<and>
   summary_count ''low_issues'' (report_data demo_platform demo_final) = 0 \<and>
   length (filter (\<lambda>r. \<not> passed r) (results demo_final)) = 5 \<and>
   set (critical_fails (generate_report demo_final)) \<union>
     set (high_fails (generate_report demo_final)) \<union>
     set (medium_fails (generate_report demo_final)) =
     {r \<in> set (results demo_final). \<not> passed r}"
proof -
  have mem: "test_memory_usage \<in> set probes" by (simp add: probes_def)
  have closes: "\<not> close_after_verdict demo_platform"
    by (simp add: close_after_verdict_def demo_fields)
  have step: "test_memory_usage demo_platform demo_final =
     Inr (add_result demo_platform demo_final ''Memory Usage'' False
           ''High memory usage detected: ['SecretApp.exe: 600.0MB']'' ''medium'')"
    by (rule demo_memory) (simp add: demo_final_def)
  have five: "length (filter (\<lambda>r. \<not> passed r) (results demo_final)) = 5"
    by (simp add: demo_final_def demo_results_def demo_result_def)
  have fails: "\<not> passed (last (results (add_result demo_platform demo_final
      ''Memory Usage'' False
      ''High memory usage detected: ['SecretApp.exe: 600.0MB']'' ''medium'')))"
    by (simp add: add_result_def)
  note inst = failures_never_low
    [of demo_envs "''Secret''" "[]" demo_final "generate_report demo_final" demo_platform]
  from inst mem step closes fails have sev:
    "severity (last (results (add_result demo_platform demo_final ''Memory Usage'' False
       ''High memory usage detected: ['SecretApp.exe: 600.0MB']'' ''medium''))) \<in>
     failing_severities"
    by blast
  from inst have run_part:
    "summary_count ''low_issues'' (report_data demo_platform demo_final) = 0 \<and>
     set (critical_fails (generate_report demo_final)) \<union>
       set (high_fails (generate_report demo_final)) \<union>
       set (medium_fails (generate_report demo_final)) =
       {r \<in> set (results demo_final). \<not> passed r}"
    using demo_run_all_tests by blast
  show ?thesis using mem closes step sev five run_part demo_run_all_tests by blast
qed

subsection \<open>Window matching\<close>

lemma callback_set:
  "set (enum_window_callback env st h windows) =
     set windows \<union>
     {(h, t) | t. visible_titled env h t \<and> t \<noteq> [] \<and>
                 (window_title st = [] \<or> str_in (window_title st) (lower t))}"
  by (auto simp: enum_window_callback_def visible_titled_def split: sum.splits)

lemma foldl_callback_set:
  "set (foldl (\<lambda>windows h. enum_window_callback env st h windows) acc hs) =
     set acc \<union>
     {(h, t) | h t. h \<in> set hs \<and> visible_titled env h t \<and> t \<noteq> [] \<and>
                   (window_title st = [] \<or> str_in (window_title st) (lower t))}"
proof (induction hs arbitrary: acc)
  case Nil
  then show ?case by simp
next
  case (Cons h hs)
  show ?case
    unfolding foldl_Cons Cons.IH callback_set by auto
qed

lemma find_target_windows_iff:
  assumes "EnumWindows env = Inr hs"
  shows "\<exists>ws. find_target_windows env st = Inr ws \<and>
     (\<forall>h t. (h, t) \<in> set ws \<longleftrightarrow>
        h \<in> set hs \<and> visible_titled env h t \<and> t \<noteq> [] \<and>
        (window_title st = [] \<or> str_in (window_title st) (lower t)))"
  using assms unfolding find_target_windows_def by (simp add: foldl_callback_set)

lemma str_in_nonempty: "sub \<noteq> [] \<Longrightarrow> str_in sub s \<Longrightarrow> s \<noteq> []"
  by (cases s) auto

text \<open>
  Claim C6, as stated, fails: with an empty filter a visible window whose title is empty
  matches by the specification, but the resolver drops it.
\<close>

theorem empty_title_counterexample:
  "EnumWindows demo_platform = Inr [100, 200] \<and> visible_titled demo_platform 100 [] \<and>
   spec_window_match [] [] \<and>
   find_target_windows demo_platform (init ''Secret'' []) = Inr [(200, ''Secret Window'')] \<and>
   (100, []) \<notin> set [(200 :: hwnd, ''Secret Window'')]"
  using demo_find_windows [of "init ''Secret'' []"]
  by (simp add: demo_fields visible_titled_def spec_window_match_def lower_def init_def)

text \<open>
  Claim C6, amended. For every enumerated top-level window that is visible and whose title
  can be read, the resolver's match holds iff the title is not empty and (the filter is
  empty or the title contains the filter, case-insensitively). A window with an empty
  title never matches, also under an empty filter; under a non-empty filter the match is
  exactly the containment.
\<close>

theorem window_match_characterised:
  assumes "EnumWindows env = Inr hs"
  shows "\<exists>ws. find_target_windows env (init pname wfilter) = Inr ws \<and>
     ((h, t) \<in> set ws \<longleftrightarrow>
        h \<in> set hs \<and> visible_titled env h t \<and> t \<noteq> [] \<and> spec_window_match wfilter t) \<and>
     (h, []) \<notin> set ws \<and>
     (lower wfilter \<noteq> [] \<longrightarrow>
        ((h, t) \<in> set ws \<longleftrightarrow>
           h \<in> set hs \<and> visible_titled env h t \<and> spec_window_match wfilter t))"
proof -
  have wt: "window_title (init pname wfilter) = lower wfilter" by (simp add: init_def)
  from find_target_windows_iff [OF assms, of "init pname wfilter"] obtain ws where
    ws: "find_target_windows env (init pname wfilter) = Inr ws"
    and iff: "\<And>h t. (h, t) \<in> set ws \<longleftrightarrow>
        h \<in> set hs \<and> visible_titled env h t \<and> t \<noteq> [] \<and>
        (lower wfilter = [] \<or> str_in (lower wfilter) (lower t))"
    unfolding wt by blast
  have main: "(h, t) \<in> set ws \<longleftrightarrow>
      h \<in> set hs \<and> visible_titled env h t \<and> t \<noteq> [] \<and> spec_window_match wfilter t" for t
    by (simp add: iff spec_window_match_def)
  have ne: "t \<noteq> []" if "lower wfilter \<noteq> []" "spec_window_match wfilter t"
  proof
    assume "t = []"
    with that show False by (simp add: spec_window_match_def lower_def)
  qed
  show ?thesis using ws main [of t] main [of "[]"] ne by blast
qed

theorem window_match_characterised_witness:
  "EnumWindows demo_platform = Inr [100, 200] \<and>
   find_target_windows demo_platform (init ''Secret'' []) = Inr [(200, ''Secret Window'')] \<and>
   (200, ''Secret Window'') \<in> set [(200 :: hwnd, ''Secret Window'')] \<and>
   200 \<in> set [100 :: hwnd, 200] \<and>
   visible_titled demo_platform 200 ''Secret Window'' \<and>
   spec_window_match [] ''Secret Window'' \<and>
   lower ''window'' \<noteq> [] \<and>
   spec_window_match ''window'' ''Secret Window'' \<and>
   (\<exists>ws. find_target_windows demo_platform (init ''Secret'' ''window'') = Inr ws \<and>
         (200, ''Secret Window'') \<in> set ws \<and> (100, []) \<notin> set ws)"
proof -
  have enum: "EnumWindows demo_platform = Inr [100, 200]" by (simp add: demo_fields)
  have found: "find_target_windows demo_platform (init ''Secret'' []) =
      Inr [(200, ''Secret Window'')]"
    by (rule demo_find_windows) (simp add: init_def lower_def)
  have b: "visible_titled demo_platform 200 ''Secret Window''"
    by (simp add: visible_titled_def demo_fields)
  have c: "spec_window_match [] ''Secret Window''" by (simp add: spec_window_match_def lower_def)
  have d: "lower ''window'' \<noteq> []" by (simp add: lower_def)
  have e: "spec_window_match ''window'' ''Secret Window''"
    by (simp add: spec_window_match_def lower_def lower_char_def)
  from window_match_characterised
    [OF enum, of "''Secret''" "''window''" 200 "''Secret Window''"]
  obtain ws where
    ws: "find_target_windows demo_platform (init ''Secret'' ''window'') = Inr ws"
    and in_ws: "(200, ''Secret Window'') \<in> set ws \<longleftrightarrow>
      200 \<in> set [100 :: hwnd, 200] \<and> visible_titled demo_platform 200 ''Secret Window'' \<and>
      ''Secret Window'' \<noteq> [] \<and> spec_window_match ''window'' ''Secret Window''"
    by blast
  from window_match_characterised [OF enum, of "''Secret''" "''window''" 100 "[]"] ws
  have out: "(100, []) \<notin> set ws" by simp
  from in_ws b e have "(200, ''Secret Window'') \<in> set ws" by simp
  with ws out have last: "\<exists>ws. find_target_windows demo_platform (init ''Secret'' ''window'') =
      Inr ws \<and> (200, ''Secret Window'') \<in> set ws \<and> (100, []) \<notin> set ws"
    by blast
  show ?thesis using enum found b c d e last by simp
qed

subsection \<open>Who writes the snapshot\<close>

lemma add_result_targets:
  "target_processes (add_result env st t p d sev) = target_processes st"
  "target_windows (add_result env st t p d sev) = target_windows st"
  by (simp_all add: add_result_def)

lemma keeps_processes_probes:
  "keeps_processes test_tasklist_detection"
  "keeps_processes test_wmic_detection"
  "keeps_processes test_powershell_detection"
  "keeps_processes test_window_enumeration"
  "keeps_processes test_taskbar_presence"
  "keeps_processes test_alt_tab_visibility"
  "keeps_processes test_process_tree"
  "keeps_processes test_network_connections"
  "keeps_processes test_memory_usage"
  "keeps_processes test_cpu_usage"
  "keeps_processes test_screen_capture_protection"
  "keeps_processes test_process_injection_resistance"
  "keeps_processes test_debugging_protection"
  "keeps_processes test_process_name_legitimacy"
  by (simp_all add: keeps_processes_def add_result_targets Let_def
      test_tasklist_detection_def test_wmic_detection_def test_powershell_detection_def
      test_window_enumeration_def test_taskbar_presence_def test_alt_tab_visibility_def
      test_process_tree_def test_network_connections_def test_memory_usage_def
      test_cpu_usage_def cpu_verdict_def test_screen_capture_protection_def
      capture_body_def capture_failed_def
      test_process_injection_resistance_def test_debugging_protection_def
      test_process_name_legitimacy_def split: sum.split prod.split)

lemma keeps_windows_probes:
  "keeps_windows test_psutil_detection"
  "keeps_windows test_tasklist_detection"
  "keeps_windows test_wmic_detection"
  "keeps_windows test_powershell_detection"
  "keeps_windows test_taskbar_presence"
  "keeps_windows test_alt_tab_visibility"
  "keeps_windows test_process_tree"
  "keeps_windows test_network_connections"
  "keeps_windows test_memory_usage"
  "keeps_windows test_cpu_usage"
  "keeps_windows test_screen_capture_protection"
  "keeps_windows test_process_injection_resistance"
  "keeps_windows test_debugging_protection"
  "keeps_windows test_process_name_legitimacy"
  by (simp_all add: keeps_windows_def add_result_targets Let_def
      test_psutil_detection_def
      test_tasklist_detection_def test_wmic_detection_def test_powershell_detection_def
      test_taskbar_presence_def test_alt_tab_visibility_def
      test_process_tree_def test_network_connections_def test_memory_usage_def
      test_cpu_usage_def cpu_verdict_def test_screen_capture_protection_def
      capture_body_def capture_failed_def
      test_process_injection_resistance_def test_debugging_protection_def
      test_process_name_legitimacy_def split: sum.split prod.split)

lemma keeps_processesD:
  "keeps_processes p \<Longrightarrow> p env st = Inr st' \<Longrightarrow> target_processes st' = target_processes st"
  unfolding keeps_processes_def by (erule allE [of _ env], erule allE [of _ st]) simp

lemma keeps_windowsD:
  "keeps_windows p \<Longrightarrow> p env st = Inr st' \<Longrightarrow> target_windows st' = target_windows st"
  unfolding keeps_windows_def by (erule allE [of _ env], erule allE [of _ st]) simp

lemma psutil_writes_processes:
  "test_psutil_detection env st = Inr st' \<Longrightarrow> find_target_processes env st = Inr ps \<Longrightarrow>
   target_processes st' = (if ps \<noteq> [] then ps else target_processes st)"
  by (auto simp: test_psutil_detection_def add_result_targets split: sum.splits if_splits)

lemma window_enumeration_writes_windows:
  "test_window_enumeration env st = Inr st' \<Longrightarrow> find_target_windows env st = Inr ws \<Longrightarrow>
   target_windows st' = (if ws \<noteq> [] then ws else target_windows st)"
  by (auto simp: test_window_enumeration_def add_result_targets Let_def split: if_splits)

text \<open>
  Claim C5, as stated, fails: the snapshot is not captured before the probes run. It is
  empty at the start of a run, and the first probe writes the process list.
\<close>

theorem probe_writes_snapshot_counterexample:
  "target_processes (init ''Secret'' []) = [] \<and>
   \<not> isl (test_psutil_detection demo_platform (init ''Secret'' [])) \<and>
   target_processes (projr (test_psutil_detection demo_platform (init ''Secret'' []))) = [7]"
proof -
  have pn: "process_name (init ''Secret'' []) = ''secret''"
    by (simp add: init_def lower_def lower_char_def)
  show ?thesis
    by (simp add: demo_psutil [OF pn] add_result_targets) (simp add: init_def)
qed

text \<open>
  Claim C5, amended. Both lists of the snapshot are empty when the tester is created. The
  process list is written only by the first probe (psutil detection), which stores the
  processes it finds when there are any; the window list is written only by the fifth
  probe (window enumeration), likewise. Each of the other probes leaves both lists as they
  are.
\<close>

theorem snapshot_written_by_two_probes:
  "target_processes (init pname wtitle) = [] \<and> target_windows (init pname wtitle) = [] \<and>
   (\<forall>p \<in> set (drop 1 probes). \<forall>env st st'.
      p env st = Inr st' \<longrightarrow> target_processes st' = target_processes st) \<and>
   (\<forall>p \<in> set (take 4 probes @ drop 5 probes). \<forall>env st st'.
      p env st = Inr st' \<longrightarrow> target_windows st' = target_windows st) \<and>
   (\<forall>env st st' ps.
      test_psutil_detection env st = Inr st' \<and> find_target_processes env st = Inr ps \<longrightarrow>
      target_processes st' = (if ps \<noteq> [] then ps else target_processes st)) \<and>
   (\<forall>env st st' ws.
      test_window_enumeration env st = Inr st' \<and> find_target_windows env st = Inr ws \<longrightarrow>
      target_windows st' = (if ws \<noteq> [] then ws else target_windows st))"
proof (intro conjI)
  show "target_processes (init pname wtitle) = []" "target_windows (init pname wtitle) = []"
    by (simp_all add: init_def)
  have "\<forall>p \<in> set (drop 1 probes). keeps_processes p"
    by (simp add: probes_def keeps_processes_probes)
  then show "\<forall>p \<in> set (drop 1 probes). \<forall>env st st'.
      p env st = Inr st' \<longrightarrow> target_processes st' = target_processes st"
    using keeps_processesD by blast
  have "\<forall>p \<in> set (take 4 probes @ drop 5 probes). keeps_windows p"
    by (simp add: probes_def keeps_windows_probes)
  then show "\<forall>p \<in> set (take 4 probes @ drop 5 probes). \<forall>env st st'.
      p env st = Inr st' \<longrightarrow> target_windows st' = target_windows st"
    using keeps_windowsD by blast
  show "\<forall>env st st' ps.
      test_psutil_detection env st = Inr st' \<and> find_target_processes env st = Inr ps \<longrightarrow>
      target_processes st' = (if ps \<noteq> [] then ps else target_processes st)"
    using psutil_writes_processes by blast
  show "\<forall>env st st' ws.
      test_window_enumeration env st = Inr st' \<and> find_target_windows env st = Inr ws \<longrightarrow>
      target_windows st' = (if ws \<noteq> [] then ws else target_windows st)"
    using window_enumeration_writes_windows by blast
qed

theorem snapshot_written_by_two_probes_witness:
  "test_memory_usage \<in> set (drop 1 probes) \<and>
   test_memory_usage \<in> set (take 4 probes @ drop 5 probes) \<and>
   test_memory_usage demo_platform demo_final =
     Inr (add_result demo_platform demo_final ''Memory Usage'' False
           ''High memory usage detected: ['SecretApp.exe: 600.0MB']'' ''medium'') \<and>
   target_processes
     (add_result demo_platform demo_final ''Memory Usage'' False
       ''High memory usage detected: ['SecretApp.exe: 600.0MB']'' ''medium'') =
     target_processes demo_final \<and>
   target_windows
     (add_result demo_platform demo_final ''Memory Usage'' False
       ''High memory usage detected: ['SecretApp.exe: 600.0MB']'' ''medium'') =
     target_windows demo_final \<and>
   find_target_processes demo_platform (init ''Secret'' []) = Inr [7] \<and>
   test_psutil_detection demo_platform (init ''Secret'' []) =
     Inr ((add_result demo_platform (init ''Secret'' []) ''PSUtil Process Detection'' False
            ''Found 1 processes: ['SecretApp.exe']'' ''high'')\<lparr>target_processes := [7]\<rparr>) \<and>
   target_processes
     ((add_result demo_platform (init ''Secret'' []) ''PSUtil Process Detection'' False
        ''Found 1 processes: ['SecretApp.exe']'' ''high'')\<lparr>target_processes := [7]\<rparr>) =
     (if [7::nat] \<noteq> [] then [7] else target_processes (init ''Secret'' []))"
proof -
  have m1: "test_memory_usage \<in> set (drop 1 probes)"
    and m2: "test_memory_usage \<in> set (take 4 probes @ drop 5 probes)"
    by (simp_all add: probes_def)
  have step: "test_memory_usage demo_platform demo_final =
     Inr (add_result demo_platform demo_final ''Memory Usage'' False
           ''High memory usage detected: ['SecretApp.exe: 600.0MB']'' ''medium'')"
    by (rule demo_memory) (simp add: demo_final_def)
  have pn: "process_name (init ''Secret'' []) = ''secret''"
    by (simp add: init_def lower_def lower_char_def)
  have found: "find_target_processes demo_platform (init ''Secret'' []) = Inr [7]"
    by (simp add: find_target_processes_def demo_fields or_continue_def pn lower_def
        lower_char_def)
  note inst = snapshot_written_by_two_probes [of "''Secret''" "[]"]
  from inst m1 step have keep_p:
    "target_processes
       (add_result demo_platform demo_final ''Memory Usage'' False
         ''High memory usage detected: ['SecretApp.exe: 600.0MB']'' ''medium'') =
     target_processes demo_final"
    by blast
  from inst m2 step have keep_w:
    "target_windows
       (add_result demo_platform demo_final ''Memory Usage'' False
         ''High memory usage detected: ['SecretApp.exe: 600.0MB']'' ''medium'') =
     target_windows demo_final"
    by blast
  from inst demo_psutil [OF pn] found have wrote:
    "target_processes
       ((add_result demo_platform (init ''Secret'' []) ''PSUtil Process Detection'' False
          ''Found 1 processes: ['SecretApp.exe']'' ''high'')\<lparr>target_processes := [7]\<rparr>) =
     (if [7::nat] \<noteq> [] then [7] else target_processes (init ''Secret'' []))"
    by blast
  show ?thesis using m1 m2 step keep_p keep_w found demo_psutil [OF pn] wrote by blast
qed

subsection \<open>The CPU probe\<close>

lemma py_max_Max:
  assumes "xs \<noteq> []"
  shows "py_max xs = Max (set xs)"
proof (cases xs)
  case Nil
  with assms show ?thesis by simp
next
  case (Cons a list)
  then show ?thesis using Max.set_eq_fold [of a list] by (simp add: py_max_def)
qed

lemma cpu_verdict_samples:
  assumes "samples \<noteq> []"
  shows "cpu_verdict env st samples =
     add_result env st ''CPU Usage'' (\<not> 50 < Max (set samples)) (cpu_details samples)
       (if 50 < Max (set samples) then ''medium'' else ''low'')"
  using assms by (simp add: cpu_verdict_def py_max_Max cpu_details_def Let_def)

lemma cpu_sample_length:
  "cpu_sample env procs i cs = Inr cs' \<Longrightarrow> length cs' \<le> Suc (length cs)"
  by (auto simp: cpu_sample_def split: sum.splits prod.splits if_splits)

lemma cpu_rounds_length:
  "for_each (cpu_sample env procs) rounds cs = Inr cs' \<Longrightarrow>
   length cs' \<le> length cs + length rounds"
proof (induction rounds arbitrary: cs)
  case Nil
  then show ?case by simp
next
  case (Cons i rounds)
  from Cons.prems obtain cs1 where
    one: "cpu_sample env procs i cs = Inr cs1"
    and rest: "for_each (cpu_sample env procs) rounds cs1 = Inr cs'"
    by (auto split: sum.splits)
  from cpu_sample_length [OF one] Cons.IH [OF rest] show ?case by simp
qed

text \<open>
  Claim C7. When the sampling loop of the CPU probe (five rounds) yields a non-empty list
  of samples, the probe appends one result that fails with severity "medium" iff the
  largest sample exceeds 50 and passes otherwise, and whose details report the arithmetic
  mean and the maximum of the samples with one decimal. For the samples 10, 20, 30, 70, 15
  the result fails and reports avg=29.0 and max=70.0.
\<close>

theorem cpu_probe_verdict:
  assumes "target_processes st \<noteq> []"
    and "for_each (cpu_sample env (target_processes st)) [0, 1, 2, 3, 4] [] = Inr samples"
    and "samples \<noteq> []"
  shows "length samples \<le> 5 \<and>
    (\<exists>r. test_cpu_usage env st = Inr (st\<lparr>results := results st @ [r]\<rparr>) \<and>
       test r = ''CPU Usage'' \<and>
       (\<not> passed r \<and> severity r = ''medium'' \<longleftrightarrow> 50 < Max (set samples)) \<and>
       (passed r \<longleftrightarrow> \<not> 50 < Max (set samples)) \<and>
       details r = cpu_details samples) \<and>
    cpu_verdict env st [10, 20, 30, 70, 15] =
      add_result env st ''CPU Usage'' False
        ''High CPU usage detected: avg=29.0%, max=70.0%'' ''medium''"
proof (intro conjI)
  from cpu_rounds_length [OF assms(2)] show "length samples \<le> 5" by simp
  have run: "test_cpu_usage env st = Inr (cpu_verdict env st samples)"
    using assms(1,2) by (simp only: test_cpu_usage_def if_False sum.case)
  show "\<exists>r. test_cpu_usage env st = Inr (st\<lparr>results := results st @ [r]\<rparr>) \<and>
       test r = ''CPU Usage'' \<and>
       (\<not> passed r \<and> severity r = ''medium'' \<longleftrightarrow> 50 < Max (set samples)) \<and>
       (passed r \<longleftrightarrow> \<not> 50 < Max (set samples)) \<and>
       details r = cpu_details samples"
    unfolding run cpu_verdict_samples [OF assms(3)] add_result_def
    by (rule exI [of _ "\<lparr>test = ''CPU Usage'', passed = \<not> 50 < Max (set samples),
          details = cpu_details samples,
          severity = (if 50 < Max (set samples) then ''medium'' else ''low''),
          timestamp = now_isoformat env\<rparr>"]) simp
  show "cpu_verdict env st [10, 20, 30, 70, 15] =
      add_result env st ''CPU Usage'' False
        ''High CPU usage detected: avg=29.0%, max=70.0%'' ''medium''"
    by (rule cpu_verdict_example)
qed

theorem cpu_probe_verdict_witness:
  "target_processes demo_final \<noteq> [] \<and>
   for_each (cpu_sample demo_platform (target_processes demo_final)) [0, 1, 2, 3, 4] [] =
     Inr [10, 20, 30, 70, 15] \<and>
   Max (set [10, 20, 30, 70, 15 :: real]) = 70 \<and>
   cpu_details [10, 20, 30, 70, 15] = ''High CPU usage detected: avg=29.0%, max=70.0%'' \<and>
   (\<exists>r. test_cpu_usage demo_platform demo_final =
          Inr (demo_final\<lparr>results := results demo_final @ [r]\<rparr>) \<and>
        \<not> passed r \<and> severity r = ''medium'' \<and>
        details r = ''High CPU usage detected: avg=29.0%, max=70.0%'')"
proof -
  have tp: "target_processes demo_final = [7]" by (simp add: demo_final_def)
  have ne: "target_processes demo_final \<noteq> []" by (simp add: tp)
  have samples: "for_each (cpu_sample demo_platform (target_processes demo_final))
      [0, 1, 2, 3, 4] [] = Inr [10, 20, 30, 70, 15]"
    by (simp only: tp demo_cpu_samples)
  have mx: "Max (set [10, 20, 30, 70, 15 :: real]) = 70" by simp
  have det: "cpu_details [10, 20, 30, 70, 15] =
      ''High CPU usage detected: avg=29.0%, max=70.0%''"
    by (simp add: cpu_details_def fmt_1f_29 fmt_1f_70)
  have "[10, 20, 30, 70, 15 :: real] \<noteq> []" by simp
  from cpu_probe_verdict [OF ne samples this] obtain r where
    "test_cpu_usage demo_platform demo_final =
       Inr (demo_final\<lparr>results := results demo_final @ [r]\<rparr>)"
    "\<not> passed r \<and> severity r = ''medium'' \<longleftrightarrow> 50 < Max (set [10, 20, 30, 70, 15 :: real])"
    "details r = cpu_details [10, 20, 30, 70, 15]"
    by blast
  then show ?thesis using ne samples mx det by auto
qed

subsection \<open>The memory probe\<close>

lemma memory_step_caught:
  assumes "memory_caught env p"
  shows "\<exists>total. memory_step env p (t, hs) =
           Inr (total, hs @ (if memory_flagged env p then [memory_entry env p] else []))"
proof (cases "proc_memory_rss env p")
  case (Inl e)
  with assms have "psutil_gone e" by (simp add: memory_caught_def caught_or_returned_def)
  with Inl show ?thesis
    by (simp add: memory_step_def or_continue_def high_memory_def memory_flagged_def)
next
  case (Inr rss)
  show ?thesis
  proof (cases "500 < memory_mb_of rss")
    case True
    with Inr have high: "high_memory env p" by (simp add: high_memory_def)
    show ?thesis
    proof (cases "proc_name env p")
      case (Inl e)
      with assms high have "psutil_gone e"
        by (simp add: memory_caught_def caught_or_returned_def)
      with Inl Inr True show ?thesis
        by (simp add: memory_step_def or_continue_def memory_flagged_def Let_def)
    next
      case (Inr n)
      with \<open>proc_memory_rss env p = Inr rss\<close> True high show ?thesis
        by (simp add: memory_step_def memory_flagged_def memory_entry_def Let_def)
    qed
  next
    case False
    with Inr show ?thesis
      by (simp add: memory_step_def high_memory_def memory_flagged_def Let_def)
  qed
qed

lemma memory_loop:
  "\<forall>p \<in> set ps. memory_caught env p \<Longrightarrow>
   \<exists>total. for_each (memory_step env) ps (t, hs) =
     Inr (total, hs @ map (memory_entry env) (filter (memory_flagged env) ps))"
proof (induction ps arbitrary: t hs)
  case Nil
  then show ?case by simp
next
  case (Cons p ps)
  then have "memory_caught env p" by simp
  from memory_step_caught [OF this] obtain t1 where
    one: "memory_step env p (t, hs) =
      Inr (t1, hs @ (if memory_flagged env p then [memory_entry env p] else []))"
    by blast
  from Cons.prems have "\<forall>q \<in> set ps. memory_caught env q" by simp
  from Cons.IH [OF this] obtain t2 where
    "for_each (memory_step env) ps
       (t1, hs @ (if memory_flagged env p then [memory_entry env p] else [])) =
     Inr (t2, (hs @ (if memory_flagged env p then [memory_entry env p] else [])) @
              map (memory_entry env) (filter (memory_flagged env) ps))"
    by blast
  with one show ?case by simp
qed

lemma fmt_1f_600_demo: "fmt_1f (0 + memory_mb_of 629145600) = ''600.0''"
  by (simp add: memory_mb_of_600 fmt_1f_600)

text \<open>
  Claim C8, as stated, fails: a matched process with 600 MB of resident memory whose name
  cannot be read is skipped, and the probe passes.
\<close>

theorem unnamed_process_counterexample:
  "target_processes demo_final = [7] \<and> high_memory denied_platform 7 \<and>
   test_memory_usage denied_platform demo_final =
     Inr (add_result denied_platform demo_final ''Memory Usage'' True
           ''Normal memory usage: 600.0MB total'' ''low'')"
  by (simp add: test_memory_usage_def memory_step_def or_continue_def high_memory_def
      denied_platform_def demo_fields demo_final_def memory_mb_of_600 fmt_1f_600 Let_def)

text \<open>
  Claim C8, amended. For every non-empty list of matched processes on which the calls of
  the probe raise nothing but what it catches, the memory probe appends one result that
  fails with severity "medium" iff some matched process has a resident memory read as more
  than 500 MB and a name that can be read, and passes otherwise; a process whose memory or
  name cannot be read is skipped. The details of a failing result list each such process
  by name with its memory in MB, one decimal; a process of 600 MB is listed with 600.0MB.
\<close>

theorem memory_probe_verdict:
  assumes "target_processes st \<noteq> []"
    and "\<forall>p \<in> set (target_processes st). memory_caught env p"
  shows "\<exists>r. test_memory_usage env st = Inr (st\<lparr>results := results st @ [r]\<rparr>) \<and>
      test r = ''Memory Usage'' \<and>
      (\<not> passed r \<and> severity r = ''medium'' \<longleftrightarrow>
         (\<exists>p \<in> set (target_processes st). memory_flagged env p)) \<and>
      (passed r \<longleftrightarrow> \<not> (\<exists>p \<in> set (target_processes st). memory_flagged env p)) \<and>
      (\<not> passed r \<longrightarrow>
         details r = ''High memory usage detected: '' @
           repr_list (map (memory_entry env)
             (filter (memory_flagged env) (target_processes st))))"
proof -
  let ?highs = "map (memory_entry env) (filter (memory_flagged env) (target_processes st))"
  from memory_loop [OF assms(2), of 0 "[]"] obtain total where
    loop: "for_each (memory_step env) (target_processes st) (0, []) = Inr (total, ?highs)"
    by auto
  have highs: "?highs \<noteq> [] \<longleftrightarrow> (\<exists>p \<in> set (target_processes st). memory_flagged env p)"
    by (simp add: filter_empty_conv)
  show ?thesis
  proof (cases "?highs = []")
    case True
    have "test_memory_usage env st =
        Inr (st\<lparr>results := results st @
          [\<lparr>test = ''Memory Usage'', passed = True,
            details = ''Normal memory usage: '' @ fmt_1f total @ ''MB total'',
            severity = ''low'', timestamp = now_isoformat env\<rparr>]\<rparr>)"
      using assms(1) loop True by (simp add: test_memory_usage_def add_result_def)
    then show ?thesis using highs True by auto
  next
    case False
    have "test_memory_usage env st =
        Inr (st\<lparr>results := results st @
          [\<lparr>test = ''Memory Usage'', passed = False,
            details = ''High memory usage detected: '' @ repr_list ?highs,
            severity = ''medium'', timestamp = now_isoformat env\<rparr>]\<rparr>)"
      using assms(1) loop False by (simp add: test_memory_usage_def add_result_def)
    then show ?thesis using highs False by auto
  qed
qed

theorem memory_probe_verdict_witness:
  "target_processes demo_final = [7] \<and>
   memory_caught demo_platform 7 \<and>
   proc_memory_rss demo_platform 7 = Inr (600 * 1024 * 1024) \<and>
   memory_flagged demo_platform 7 \<and>
   (\<exists>r. test_memory_usage demo_platform demo_final =
          Inr (demo_final\<lparr>results := results demo_final @ [r]\<rparr>) \<and>
        \<not> passed r \<and> severity r = ''medium'' \<and>
        details r = ''High memory usage detected: ['SecretApp.exe: 600.0MB']'')"
proof -
  have tp: "target_processes demo_final = [7]" by (simp add: demo_final_def)
  have ne: "target_processes demo_final \<noteq> []" by (simp add: tp)
  have high: "memory_flagged demo_platform 7"
    by (simp add: memory_flagged_def high_memory_def demo_fields memory_mb_of_600)
  have caught7: "memory_caught demo_platform 7"
    by (simp add: memory_caught_def caught_or_returned_def demo_fields)
  have caught: "\<forall>p \<in> set (target_processes demo_final). memory_caught demo_platform p"
    by (simp add: tp caught7)
  have rss: "proc_memory_rss demo_platform 7 = Inr (600 * 1024 * 1024)"
    by (simp add: demo_fields)
  have entry: "memory_entry demo_platform 7 = ''SecretApp.exe: 600.0MB''"
    by (simp add: memory_entry_def demo_fields memory_mb_of_600 fmt_1f_600)
  have det: "''High memory usage detected: '' @
      repr_list (map (memory_entry demo_platform)
        (filter (memory_flagged demo_platform) (target_processes demo_final))) =
      ''High memory usage detected: ['SecretApp.exe: 600.0MB']''"
    by (simp add: tp high entry repr_list_def repr_str_def repr_char_def Let_def)
  from memory_probe_verdict [OF ne caught] obtain r where
    r: "test_memory_usage demo_platform demo_final =
         Inr (demo_final\<lparr>results := results demo_final @ [r]\<rparr>)"
      "\<not> passed r \<and> severity r = ''medium'' \<longleftrightarrow>
         (\<exists>p \<in> set (target_processes demo_final). memory_flagged demo_platform p)"
      "\<not> passed r \<longrightarrow>
         details r = ''High memory usage detected: '' @
           repr_list (map (memory_entry demo_platform)
             (filter (memory_flagged demo_platform) (target_processes demo_final)))"
    by blast
  have "\<exists>p \<in> set (target_processes demo_final). memory_flagged demo_platform p"
    using high by (simp add: tp)
  with r have "\<not> passed r" "severity r = ''medium''"
    "details r = ''High memory usage detected: ['SecretApp.exe: 600.0MB']''"
    using det by auto
  with r(1) tp caught7 rss high show ?thesis by blast
qed

subsection \<open>Exceptions of the platform\<close>






































end
